theory Spec2Isabelle
  imports Main "HOL-Library.Sublist" "HOL-Library.Char_ord" "HOL-Library.List_Lexorder"
begin

section \<open>Strings, JavaScript truthiness and insertion-ordered maps\<close>

text \<open>
  A JavaScript string is modelled by the list of the bytes of its UTF-8 encoding, which is
  what \<^verbatim>\<open>Buffer.from(s)\<close> hashes. \<^verbatim>\<open>s.includes(p)\<close> is the contiguous-sublist test and
  \<^verbatim>\<open>s.endsWith(p)\<close> the suffix test.
\<close>

definition str_includes :: "string \<Rightarrow> string \<Rightarrow> bool" where
  "str_includes s p = sublist p s"

definition endsWith :: "string \<Rightarrow> string \<Rightarrow> bool" where
  "endsWith s p = suffix p s"

definition startsWith :: "string \<Rightarrow> string \<Rightarrow> bool" where
  "startsWith s p = prefix p s"

text \<open>
  An optional string property is \<open>None\<close> when it is \<^verbatim>\<open>undefined\<close>. In a condition
  (\<^verbatim>\<open>if (x)\<close>, \<^verbatim>\<open>!x\<close>, \<^verbatim>\<open>x || d\<close>) both \<^verbatim>\<open>undefined\<close> and the empty string are falsy.
\<close>

fun truthy :: "string option \<Rightarrow> bool" where
  "truthy None = False"
| "truthy (Some s) = (s \<noteq> [])"

definition or_default :: "string option \<Rightarrow> string \<Rightarrow> string" where
  "or_default x d = (case x of None \<Rightarrow> d | Some s \<Rightarrow> if s = [] then d else s)"

text \<open>
  A JavaScript \<^verbatim>\<open>Map\<close> iterates in insertion order, and \<^verbatim>\<open>set\<close> on a key that is
  already present replaces the value where the key stands.
\<close>

fun map_set :: "'k \<Rightarrow> 'v \<Rightarrow> ('k \<times> 'v) list \<Rightarrow> ('k \<times> 'v) list" where
  "map_set k v [] = [(k, v)]"
| "map_set k v ((k', v') # m) =
     (if k = k' then (k, v) # m else (k', v') # map_set k v m)"

definition map_values :: "('k \<times> 'v) list \<Rightarrow> 'v list" where
  "map_values m = map snd m"

text \<open>\<^verbatim>\<open>Array.prototype.find\<close>: the first element that satisfies the predicate.\<close>

fun array_find :: "('a \<Rightarrow> bool) \<Rightarrow> 'a list \<Rightarrow> 'a option" where
  "array_find P [] = None"
| "array_find P (x # xs) = (if P x then Some x else array_find P xs)"

text \<open>\<^verbatim>\<open>xs[0]\<close>, which is \<^verbatim>\<open>undefined\<close> on the empty array.\<close>

fun first_elem :: "'a list \<Rightarrow> 'a option" where
  "first_elem [] = None"
| "first_elem (x # xs) = Some x"

text \<open>\<^verbatim>\<open>a || b\<close> on values that are objects or \<^verbatim>\<open>undefined\<close>.\<close>

fun or_else :: "'a option \<Rightarrow> 'a option \<Rightarrow> 'a option" where
  "or_else (Some x) y = Some x"
| "or_else None y = y"


section \<open>Manifest builder (tools/build: types.ts and the manifest plugin)\<close>

subsection \<open>Configuration and the build environment\<close>

datatype cdn_target = GithubPages | CloudflarePages | Netlify | Vercel

record CacheConfig =
  staticAssets :: nat
  manifests :: nat
  cache_wasm :: nat
  cache_plugins :: nat

record CDNBuildConfig =
  build_target :: cdn_target
  wasmOptimization :: bool
  caching :: CacheConfig
  assets_baseUrl :: "string option"

text \<open>
  Everything the plugin reads from outside its arguments: the digests of Node's
  \<^verbatim>\<open>crypto\<close> module (hex output), the hex-to-base64 re-encoding done through
  \<^verbatim>\<open>Buffer\<close>, the system clock (\<open>clock n\<close> is the \<open>n\<close>-th reading of
  \<^verbatim>\<open>new Date().toISOString()\<close>), the process environment and the two \<^verbatim>\<open>git\<close>
  subprocesses, whose failure is caught and gives \<^verbatim>\<open>undefined\<close>.
\<close>

record build_env =
  sha384_hex :: "string \<Rightarrow> string"
  sha256_hex :: "string \<Rightarrow> string"
  hex_to_base64 :: "string \<Rightarrow> string"
  clock :: "nat \<Rightarrow> string"
  npm_package_version :: "string option"
  process_version :: string
  git_rev_parse_head :: "string option"
  git_rev_parse_branch :: "string option"

subsection \<open>Asset descriptions\<close>

text \<open>
  \<^verbatim>\<open>AssetInfo\<close> without \<^verbatim>\<open>compressedSize\<close> (a floating-point product,
  \<^verbatim>\<open>Math.floor(size * 0.7)\<close>) and \<^verbatim>\<open>mimeType\<close> (a table lookup on Node's
  \<^verbatim>\<open>path.extname\<close>); neither is read again by the plugin.
\<close>

record AssetInfo =
  filename :: string
  asset_size :: nat
  asset_hash :: string
  cacheDuration :: nat
  lastModified :: string

record WasmAssetInfo = AssetInfo +
  streamingCompilation :: bool
  memoryRequirement :: nat
  crossOriginIsolation :: bool

text \<open>
  \<^verbatim>\<open>PluginAssetInfo\<close> without \<^verbatim>\<open>id\<close> and \<^verbatim>\<open>name\<close>, which are derived from the file
  name through Node's \<^verbatim>\<open>path.basename\<close>.
\<close>

record PluginAssetInfo = AssetInfo +
  plugin_version :: string
  category :: string
  dependencies :: "string list"
  entry :: string
  exports :: "string list"

datatype source = SourceString string | SourceBytes string

fun Buffer_from :: "source \<Rightarrow> string" where
  "Buffer_from (SourceString s) = s"
| "Buffer_from (SourceBytes b) = b"

definition getCacheDuration :: "string \<Rightarrow> CDNBuildConfig \<Rightarrow> nat" where
  "getCacheDuration fname config =
     (if str_includes fname ''manifest'' then manifests (caching config)
      else if endsWith fname ''.wasm'' then cache_wasm (caching config)
      else if str_includes fname ''plugin'' then cache_plugins (caching config)
      else staticAssets (caching config))"

text \<open>The argument \<open>t\<close> is the number of clock readings made so far.\<close>

definition createAssetInfo ::
  "build_env \<Rightarrow> nat \<Rightarrow> string \<Rightarrow> source \<Rightarrow> CDNBuildConfig \<Rightarrow> AssetInfo" where
  "createAssetInfo env t fname src config =
     (let content = Buffer_from src in
      \<lparr> filename = fname,
        asset_size = length content,
        asset_hash = sha384_hex env content,
        cacheDuration = getCacheDuration fname config,
        lastModified = clock env t \<rparr>)"

definition estimateWasmMemory :: "source \<Rightarrow> nat" where
  "estimateWasmMemory src = max (length (Buffer_from src) * 2) (1024 * 1024)"

definition createWasmAssetInfo ::
  "build_env \<Rightarrow> nat \<Rightarrow> string \<Rightarrow> source \<Rightarrow> CDNBuildConfig \<Rightarrow> WasmAssetInfo" where
  "createWasmAssetInfo env t fname src config =
     AssetInfo.extend (createAssetInfo env t fname src config)
       (WasmAssetInfo.fields (wasmOptimization config) (estimateWasmMemory src) True)"

definition createPluginAssetInfo ::
  "build_env \<Rightarrow> nat \<Rightarrow> string \<Rightarrow> source \<Rightarrow> CDNBuildConfig \<Rightarrow> PluginAssetInfo option" where
  "createPluginAssetInfo env t fname src config =
     Some (AssetInfo.extend (createAssetInfo env t fname src config)
       (PluginAssetInfo.fields ''1.0.0'' ''utility'' [] fname [''default'']))"

subsection \<open>The manifest\<close>

record manifest_assets =
  core :: "AssetInfo option"
  orchestration :: "AssetInfo option"
  pluginFramework :: "AssetInfo option"
  plugins :: "PluginAssetInfo list"
  wasm :: "WasmAssetInfo list"

record BuildMetadata =
  buildDate :: string
  buildId :: string
  nodeVersion :: string
  gitCommit :: "string option"
  gitBranch :: "string option"
  meta_target :: cdn_target
  totalBundleSize :: nat

record AssetManifest =
  version :: string
  timestamp :: string
  buildHash :: string
  assets :: manifest_assets
  integrity :: "(string \<times> string) list"
  metadata :: BuildMetadata

text \<open>
  The integrity record is a plain object that gets one property per entry of the asset
  map; the two list arguments are not read. An assignment to the name \<^verbatim>\<open>__proto__\<close>
  reaches the setter that every object inherits, which ignores a string: for a file of
  that name nothing is stored.
\<close>

definition generateIntegrityMap ::
  "build_env \<Rightarrow> (string \<times> AssetInfo) list \<Rightarrow> WasmAssetInfo list \<Rightarrow> PluginAssetInfo list
     \<Rightarrow> (string \<times> string) list" where
  "generateIntegrityMap env amap wasmList pluginList =
     map (\<lambda>(fname, asset). (fname, ''sha384-'' @ hex_to_base64 env (asset_hash asset)))
       (filter (\<lambda>(fname, asset). fname \<noteq> ''__proto__'') amap)"

text \<open>
  \<^verbatim>\<open>generateManifest\<close> reads the clock twice (\<^verbatim>\<open>timestamp\<close>, then \<^verbatim>\<open>buildDate\<close>).
  \<^verbatim>\<open>compressionRatio\<close>, a floating-point quotient, and the constant
  \<^verbatim>\<open>compatibility\<close> block are left out.
\<close>

definition generateManifest ::
  "build_env \<Rightarrow> nat \<Rightarrow> (string \<times> AssetInfo) list \<Rightarrow> PluginAssetInfo list
     \<Rightarrow> WasmAssetInfo list \<Rightarrow> CDNBuildConfig \<Rightarrow> AssetManifest" where
  "generateManifest env t amap pluginList wasmList config =
     (let bh = take 8 (sha256_hex env (concat (map asset_hash (map_values amap))));
          total = sum_list (map asset_size (map_values amap));
          assetsList = map_values amap;
          coreAsset = or_else (array_find (\<lambda>a. str_includes (filename a) ''core'') assetsList)
                        (first_elem assetsList);
          orchestrationAsset =
            or_else (array_find (\<lambda>a. str_includes (filename a) ''orchestration'') assetsList)
              coreAsset;
          pluginFrameworkAsset =
            or_else (array_find (\<lambda>a. str_includes (filename a) ''plugin-framework'') assetsList)
              coreAsset
      in \<lparr> version = or_default (npm_package_version env) ''1.0.0'',
           timestamp = clock env t,
           buildHash = bh,
           assets = \<lparr> core = coreAsset,
                      orchestration = orchestrationAsset,
                      pluginFramework = pluginFrameworkAsset,
                      plugins = pluginList,
                      wasm = wasmList \<rparr>,
           integrity = generateIntegrityMap env amap wasmList pluginList,
           metadata = \<lparr> buildDate = clock env (t + 1),
                        buildId = bh,
                        nodeVersion = process_version env,
                        gitCommit = git_rev_parse_head env,
                        gitBranch = git_rev_parse_branch env,
                        meta_target = build_target config,
                        totalBundleSize = total \<rparr> \<rparr>)"

text \<open>The file names listed anywhere under \<^verbatim>\<open>manifest.assets\<close>.\<close>

definition manifest_asset_filenames :: "manifest_assets \<Rightarrow> string set" where
  "manifest_asset_filenames a =
     filename ` (set_option (core a) \<union> set_option (orchestration a)
                  \<union> set_option (pluginFramework a))
     \<union> filename ` set (plugins a) \<union> filename ` set (wasm a)"

subsection \<open>Bundle-size validation\<close>

text \<open>\<^verbatim>\<open>SIZE_LIMITS\<close>, in the order \<^verbatim>\<open>Object.entries\<close> enumerates it.\<close>

definition SIZE_LIMITS :: "(string \<times> nat) list" where
  "SIZE_LIMITS =
     [(''core.min.js'', 2 * 1024 * 1024),
      (''orchestration.min.js'', 800 * 1024),
      (''plugin-framework.min.js'', 500 * 1024),
      (''wasm'', 1572864),
      (''plugin'', 500 * 1024),
      (''total'', 5 * 1024 * 1024)]"

definition SIZE_LIMITS_total :: nat where
  "SIZE_LIMITS_total = 5 * 1024 * 1024"

text \<open>An entry of the \<^verbatim>\<open>issues\<close> array, with the numbers its message prints.\<close>

datatype size_issue =
    FileExceeds string nat nat
  | TotalExceeds nat nat

definition file_issues :: "string \<Rightarrow> AssetInfo \<Rightarrow> size_issue list" where
  "file_issues fname asset =
     concat (map (\<lambda>(pattern, limit).
        if str_includes fname pattern \<and> asset_size asset > limit
        then [FileExceeds fname (asset_size asset) limit] else []) SIZE_LIMITS)"

text \<open>
  \<^verbatim>\<open>validateBundleSizes\<close> returns nothing; its only effect is one
  \<^verbatim>\<open>console.warn\<close> with the issues when there are any. The model returns that warning.
\<close>

definition bundle_size_issues :: "(string \<times> AssetInfo) list \<Rightarrow> size_issue list" where
  "bundle_size_issues amap =
     (let per_file = concat (map (\<lambda>(fname, asset). file_issues fname asset) amap);
          totalSize = sum_list (map asset_size (map_values amap))
      in per_file @ (if totalSize > SIZE_LIMITS_total
                     then [TotalExceeds totalSize SIZE_LIMITS_total] else []))"

definition validateBundleSizes ::
  "(string \<times> AssetInfo) list \<Rightarrow> CDNBuildConfig \<Rightarrow> size_issue list option" where
  "validateBundleSizes amap config =
     (let issues = bundle_size_issues amap
      in if length issues > 0 then Some issues else None)"

subsection \<open>The \<^verbatim>\<open>generateBundle\<close> hook\<close>

datatype bundle_item = OutputAsset source | OutputChunk string

text \<open>
  The three collections live in the closure of \<^verbatim>\<open>manifestPlugin\<close>; \<open>ticks\<close> counts the
  clock readings.
\<close>

record plugin_state =
  assetMap :: "(string \<times> AssetInfo) list"
  pluginAssets :: "PluginAssetInfo list"
  wasmAssets :: "WasmAssetInfo list"
  ticks :: nat

definition initial_state :: plugin_state where
  "initial_state = \<lparr> assetMap = [], pluginAssets = [], wasmAssets = [], ticks = 0 \<rparr>"

fun process_entry ::
  "build_env \<Rightarrow> CDNBuildConfig \<Rightarrow> plugin_state \<Rightarrow> string \<times> bundle_item \<Rightarrow> plugin_state" where
  "process_entry env config st (fname, OutputAsset src) =
     (let st1 = st \<lparr> assetMap := map_set fname (createAssetInfo env (ticks st) fname src config)
                                    (assetMap st),
                     ticks := ticks st + 1 \<rparr>
      in if endsWith fname ''.wasm''
         then st1 \<lparr> wasmAssets := wasmAssets st1 @ [createWasmAssetInfo env (ticks st1) fname src config],
                    ticks := ticks st1 + 1 \<rparr>
         else if str_includes fname ''plugin''
         then (case createPluginAssetInfo env (ticks st1) fname src config of
                 Some pluginInfo \<Rightarrow> st1 \<lparr> pluginAssets := pluginAssets st1 @ [pluginInfo],
                                          ticks := ticks st1 + 1 \<rparr>
               | None \<Rightarrow> st1 \<lparr> ticks := ticks st1 + 1 \<rparr>)
         else st1)"
| "process_entry env config st (fname, OutputChunk code) =
     st \<lparr> assetMap := map_set fname (createAssetInfo env (ticks st) fname (SourceString code) config)
                         (assetMap st),
          ticks := ticks st + 1 \<rparr>"

definition process_bundle ::
  "build_env \<Rightarrow> CDNBuildConfig \<Rightarrow> plugin_state \<Rightarrow> (string \<times> bundle_item) list \<Rightarrow> plugin_state" where
  "process_bundle env config st bundle = foldl (process_entry env config) st bundle"

text \<open>What \<^verbatim>\<open>emitFile\<close> receives: the file name and a description of the source text.\<close>

datatype emitted_source =
    ManifestJson AssetManifest
  | JekyllConfigYml
  | EmptySource
  | CORSHeaders string

definition generateProviderConfigs ::
  "AssetManifest \<Rightarrow> CDNBuildConfig \<Rightarrow> (string \<times> emitted_source) list" where
  "generateProviderConfigs manifest config =
     (if build_target config = GithubPages
      then [(''_config.yml'', JekyllConfigYml), (''.nojekyll'', EmptySource)] else [])
     @ [(''_headers'', CORSHeaders (or_default (assets_baseUrl config) ''/*''))]"

record bundle_outcome =
  state_after :: plugin_state
  emitted :: "(string \<times> emitted_source) list"
  warned :: "size_issue list option"

definition generateBundle ::
  "build_env \<Rightarrow> CDNBuildConfig \<Rightarrow> plugin_state \<Rightarrow> (string \<times> bundle_item) list \<Rightarrow> bundle_outcome" where
  "generateBundle env config st bundle =
     (let st1 = process_bundle env config st bundle;
          manifest = generateManifest env (ticks st1) (assetMap st1) (pluginAssets st1)
                       (wasmAssets st1) config;
          out1 = [(''manifest.json'', ManifestJson manifest)];
          out2 = out1 @ generateProviderConfigs manifest config;
          w = validateBundleSizes (assetMap st1) config
      in \<lparr> state_after = st1 \<lparr> ticks := ticks st1 + 2 \<rparr>, emitted = out2, warned = w \<rparr>)"

text \<open>
  The manifest that the hook emits on its first call, when the three collections are
  still empty.
\<close>

definition bundle_manifest ::
  "build_env \<Rightarrow> CDNBuildConfig \<Rightarrow> (string \<times> bundle_item) list \<Rightarrow> AssetManifest" where
  "bundle_manifest env config bundle =
     (let st1 = process_bundle env config initial_state bundle
      in generateManifest env (ticks st1) (assetMap st1) (pluginAssets st1) (wasmAssets st1) config)"

text \<open>
  The manifest that the hook emits when it is called in the state \<open>st\<close>, and the state
  of the closure after a sequence of calls of the hook, each with the environment it
  runs in and its bundle (one plugin instance serves every output format of a build).
\<close>

definition hook_manifest ::
  "build_env \<Rightarrow> CDNBuildConfig \<Rightarrow> plugin_state \<Rightarrow> (string \<times> bundle_item) list \<Rightarrow> AssetManifest" where
  "hook_manifest env config st bundle =
     (let st1 = process_bundle env config st bundle
      in generateManifest env (ticks st1) (assetMap st1) (pluginAssets st1) (wasmAssets st1) config)"

fun hook_calls ::
  "CDNBuildConfig \<Rightarrow> plugin_state \<Rightarrow> (build_env \<times> (string \<times> bundle_item) list) list
     \<Rightarrow> plugin_state" where
  "hook_calls config st [] = st"
| "hook_calls config st ((env, bundle) # later) =
     hook_calls config (state_after (generateBundle env config st bundle)) later"

text \<open>The bytes that are hashed for one entry of the bundle.\<close>

definition item_content :: "bundle_item \<Rightarrow> string" where
  "item_content item = (case item of OutputAsset src \<Rightarrow> Buffer_from src | OutputChunk code \<Rightarrow> code)"

text \<open>
  The invariant of the plugin's closure: every entry of the asset map is stored under
  its own file name, and the two lists only hold files that are in the map.
\<close>

definition keyed :: "plugin_state \<Rightarrow> bool" where
  "keyed st \<longleftrightarrow> (\<forall>(k, a) \<in> set (assetMap st). filename a = k)
     \<and> filename ` set (pluginAssets st) \<subseteq> fst ` set (assetMap st)
     \<and> filename ` set (wasmAssets st) \<subseteq> fst ` set (assetMap st)"

text \<open>
  The per-file digests held by the plugin: for the asset map, the plugin list and the
  WASM list, each file name with the SHA-384 digest recorded for it.
\<close>

definition hash_view ::
  "plugin_state \<Rightarrow> (string \<times> string) list \<times> (string \<times> string) list \<times> (string \<times> string) list" where
  "hash_view st =
     (map (\<lambda>(f, a). (f, asset_hash a)) (assetMap st),
      map (\<lambda>a. (filename a, asset_hash a)) (pluginAssets st),
      map (\<lambda>a. (filename a, asset_hash a)) (wasmAssets st))"

subsection \<open>A concrete environment for evaluating the model\<close>

text \<open>
  The digests are parameters of every theorem below. Where a closed instance is
  evaluated, these stand-ins are used; no statement depends on what they compute.
\<close>

definition example_env :: build_env where
  "example_env = \<lparr> sha384_hex = (\<lambda>c. c), sha256_hex = (\<lambda>c. c), hex_to_base64 = (\<lambda>h. h),
     clock = (\<lambda>n. replicate n CHR ''t''), npm_package_version = None,
     process_version = ''v20'', git_rev_parse_head = None, git_rev_parse_branch = None \<rparr>"

definition example_env2 :: build_env where
  "example_env2 = \<lparr> sha384_hex = (\<lambda>c. c), sha256_hex = (\<lambda>c. c), hex_to_base64 = (\<lambda>h. h),
     clock = (\<lambda>n. replicate (n + 7) CHR ''u''), npm_package_version = Some ''2.3.4'',
     process_version = ''v22'', git_rev_parse_head = Some ''abc'', git_rev_parse_branch = Some ''main'' \<rparr>"

definition example_config :: CDNBuildConfig where
  "example_config = \<lparr> build_target = GithubPages, wasmOptimization = True,
     caching = \<lparr> staticAssets = 31536000, manifests = 3600, cache_wasm = 31536000,
                  cache_plugins = 86400 \<rparr>,
     assets_baseUrl = None \<rparr>"


section \<open>Retry with backoff (the base deployment provider)\<close>

text \<open>
  What an invocation of the operation can reject with, told apart by what the
  \<^verbatim>\<open>catch\<close> block does with it. The block reads \<^verbatim>\<open>error.message\<close> for its warning:
  of \<^verbatim>\<open>undefined\<close> and \<^verbatim>\<open>null\<close> the read throws a \<^verbatim>\<open>TypeError\<close>; of any other value
  it yields a value, unless \<^verbatim>\<open>message\<close> is an accessor that throws (\<open>ThrownOpaque\<close>,
  with what the accessor throws).
\<close>

datatype 'e thrown =
    ThrownUndefined
  | ThrownNull
  | ThrownValue 'e
  | ThrownOpaque 'e

text \<open>
  What \<^verbatim>\<open>withRetry\<close> itself rejects with: the \<^verbatim>\<open>TypeError\<close> of that read, what the
  accessor has thrown, or \<^verbatim>\<open>lastError\<close> thrown by the last statement.
\<close>

datatype 'e retry_failure =
    MessageTypeError
  | MessageReadThrew 'e
  | Rethrown "'e thrown"

text \<open>
  The operation is a parameter: \<open>operation k\<close> is what its \<open>k\<close>-th invocation settles
  to, \<open>Inl\<close> what it rejects with. The run records what \<^verbatim>\<open>withRetry\<close> settles to, how
  often the operation was invoked and the delays, in milliseconds, slept between the
  invocations. \<^verbatim>\<open>lastError\<close> is \<^verbatim>\<open>undefined\<close> while it is unassigned; the final
  \<^verbatim>\<open>throw lastError!\<close> throws whatever it holds.
\<close>

record ('e, 'a) retry_run =
  outcome :: "'e retry_failure + 'a"
  invocations :: nat
  delays :: "nat list"

definition backoff_delay :: "nat \<Rightarrow> nat" where
  "backoff_delay attempt = min (1000 * 2 ^ (attempt - 1)) 10000"

text \<open>
  The \<^verbatim>\<open>for\<close> loop, entered with the current \<^verbatim>\<open>attempt\<close>, \<^verbatim>\<open>lastError\<close> and the
  delays slept so far. An exception thrown inside the \<^verbatim>\<open>catch\<close> block leaves the loop
  and the function.
\<close>

function withRetry_loop ::
  "(nat \<Rightarrow> 'e thrown + 'a) \<Rightarrow> nat \<Rightarrow> nat \<Rightarrow> 'e thrown \<Rightarrow> nat list \<Rightarrow> ('e, 'a) retry_run" where
  "withRetry_loop operation maxRetries attempt lastError slept =
     (if attempt \<le> maxRetries then
        (case operation attempt of
           Inr v \<Rightarrow> \<lparr> outcome = Inr v, invocations = attempt, delays = slept \<rparr>
         | Inl err \<Rightarrow>
             (case err of
                ThrownUndefined \<Rightarrow>
                  \<lparr> outcome = Inl MessageTypeError, invocations = attempt, delays = slept \<rparr>
              | ThrownNull \<Rightarrow>
                  \<lparr> outcome = Inl MessageTypeError, invocations = attempt, delays = slept \<rparr>
              | ThrownOpaque x \<Rightarrow>
                  \<lparr> outcome = Inl (MessageReadThrew x), invocations = attempt, delays = slept \<rparr>
              | ThrownValue e \<Rightarrow>
                  if attempt < maxRetries
                  then withRetry_loop operation maxRetries (attempt + 1) err
                         (slept @ [backoff_delay attempt])
                  else withRetry_loop operation maxRetries (attempt + 1) err slept))
      else \<lparr> outcome = Inl (Rethrown lastError), invocations = attempt - 1, delays = slept \<rparr>)"
  by pat_completeness auto
termination
  by (relation "measure (\<lambda>(operation, maxRetries, attempt, lastError, slept). maxRetries + 1 - attempt)")
     auto

text \<open>The default of the second parameter is \<^verbatim>\<open>this.options.retries || 3\<close>.\<close>

definition default_maxRetries :: "nat option \<Rightarrow> nat" where
  "default_maxRetries retries = (case retries of None \<Rightarrow> 3 | Some r \<Rightarrow> if r = 0 then 3 else r)"

definition withRetry :: "(nat \<Rightarrow> 'e thrown + 'a) \<Rightarrow> nat \<Rightarrow> ('e, 'a) retry_run" where
  "withRetry operation maxRetries = withRetry_loop operation maxRetries 1 ThrownUndefined []"

text \<open>A failure whose \<^verbatim>\<open>message\<close> the \<^verbatim>\<open>catch\<close> block can read.\<close>

fun readable :: "'e thrown + 'a \<Rightarrow> bool" where
  "readable (Inl (ThrownValue e)) = True"
| "readable r = False"

text \<open>
  An operation that fails twice with an \<^verbatim>\<open>Error\<close> and then succeeds, and one that
  rejects with \<^verbatim>\<open>undefined\<close> once (as \<^verbatim>\<open>Promise.reject()\<close> does) and then succeeds.
\<close>

definition flaky :: "nat \<Rightarrow> string thrown + nat" where
  "flaky k = (if k < 3 then Inl (ThrownValue ''timeout'') else Inr 42)"

definition rejects_undefined_once :: "nat \<Rightarrow> string thrown + nat" where
  "rejects_undefined_once k = (if k = 1 then Inl ThrownUndefined else Inr 42)"

definition rejects_undefined_always :: "nat \<Rightarrow> string thrown + nat" where
  "rejects_undefined_always k = Inl ThrownUndefined"


section \<open>More of JavaScript: case folding, splitting, JSON values\<close>

text \<open>\<^verbatim>\<open>toLowerCase\<close> on the ASCII letters; every other byte is kept.\<close>

definition ascii_lower :: "char \<Rightarrow> char" where
  "ascii_lower c =
     (if CHR ''A'' \<le> c \<and> c \<le> CHR ''Z''
      then (case c of Char b0 b1 b2 b3 b4 b5 b6 b7 \<Rightarrow> Char b0 b1 b2 b3 b4 True b6 b7)
      else c)"

definition toLowerCase :: "string \<Rightarrow> string" where
  "toLowerCase s = map ascii_lower s"

text \<open>\<^verbatim>\<open>s.split(sep)\<close> for a one-character separator; \<open>acc\<close> is the piece being read.\<close>

fun split_on :: "char \<Rightarrow> string \<Rightarrow> string \<Rightarrow> string list" where
  "split_on sep acc [] = [rev acc]"
| "split_on sep acc (c # cs) =
     (if c = sep then rev acc # split_on sep [] cs else split_on sep (c # acc) cs)"

definition split_pop :: "char \<Rightarrow> string \<Rightarrow> string" where
  "split_pop sep s = last (split_on sep [] s)"

text \<open>\<^verbatim>\<open>s.replace('.', '-')\<close>: only the first occurrence is replaced.\<close>

fun replace_first :: "char \<Rightarrow> char \<Rightarrow> string \<Rightarrow> string" where
  "replace_first a b [] = []"
| "replace_first a b (c # cs) = (if c = a then b # cs else c # replace_first a b cs)"

definition is_alnum :: "char \<Rightarrow> bool" where
  "is_alnum c \<longleftrightarrow> (CHR ''a'' \<le> c \<and> c \<le> CHR ''z'') \<or> (CHR ''A'' \<le> c \<and> c \<le> CHR ''Z'')
                   \<or> (CHR ''0'' \<le> c \<and> c \<le> CHR ''9'')"

text \<open>
  A parsed JSON value. Numbers are only tested for truthiness, so integers stand for
  them; an object lists each of its properties once.
\<close>

datatype json =
    JNull
  | JBool bool
  | JNum int
  | JStr string
  | JArr "json list"
  | JObj "(string \<times> json) list"

fun json_truthy :: "json \<Rightarrow> bool" where
  "json_truthy JNull = False"
| "json_truthy (JBool b) = b"
| "json_truthy (JNum n) = (n \<noteq> 0)"
| "json_truthy (JStr s) = (s \<noteq> [])"
| "json_truthy (JArr xs) = True"
| "json_truthy (JObj kvs) = True"

text \<open>
  Reading a property of a value that is not \<^verbatim>\<open>null\<close>; \<open>None\<close> is \<^verbatim>\<open>undefined\<close>. (The
  properties read below are not array indices, \<^verbatim>\<open>length\<close> or inherited ones.)
\<close>

fun json_get :: "json \<Rightarrow> string \<Rightarrow> json option" where
  "json_get (JObj kvs) k = map_of kvs k"
| "json_get j k = None"

fun opt_truthy :: "json option \<Rightarrow> bool" where
  "opt_truthy None = False"
| "opt_truthy (Some j) = json_truthy j"

text \<open>\<^verbatim>\<open>Object.keys(v).length\<close>.\<close>

fun Object_keys_length :: "json \<Rightarrow> nat" where
  "Object_keys_length (JObj kvs) = length kvs"
| "Object_keys_length (JArr xs) = length xs"
| "Object_keys_length (JStr s) = length s"
| "Object_keys_length j = 0"


section \<open>Deployment validator (tools/deployment/validator.ts)\<close>

subsection \<open>Results\<close>

datatype check_status = Passed | Failed | Warning

text \<open>
  \<^verbatim>\<open>ValidationCheck\<close> and \<^verbatim>\<open>SecurityCheck\<close> without their texts (\<^verbatim>\<open>message\<close>,
  \<^verbatim>\<open>details\<close>, \<^verbatim>\<open>description\<close>, \<^verbatim>\<open>recommendation\<close>), which are only printed.
\<close>

record ValidationCheck =
  name :: string
  status :: check_status

record SecurityCheck =
  sec_name :: string
  sec_status :: check_status

text \<open>
  \<^verbatim>\<open>PerformanceMetrics\<close> without \<^verbatim>\<open>totalSize\<close> and \<^verbatim>\<open>compressionRatio\<close> (the result
  of \<^verbatim>\<open>parseInt\<close> and a floating-point quotient) and the always empty
  \<^verbatim>\<open>pluginLoadTimes\<close>.
\<close>

record PerformanceMetrics =
  loadTime :: int
  wasmLoadTime :: int

record ValidationResult =
  success :: bool
  checks :: "ValidationCheck list"
  performance :: "PerformanceMetrics option"
  security :: "SecurityCheck list"

record ValidatorOptions =
  timeout :: nat
  retries :: nat
  strictMode :: bool
  skipSlowTests :: bool
  customChecks :: "ValidationCheck list"

definition VALIDATION_CHECKS_ASSET_INTEGRITY :: string where
  "VALIDATION_CHECKS_ASSET_INTEGRITY = ''asset-integrity''"

definition VALIDATION_CHECKS_WASM_LOADING :: string where
  "VALIDATION_CHECKS_WASM_LOADING = ''wasm-loading''"

definition VALIDATION_CHECKS_PLUGIN_LOADING :: string where
  "VALIDATION_CHECKS_PLUGIN_LOADING = ''plugin-loading''"

definition VALIDATION_CHECKS_CORS_HEADERS :: string where
  "VALIDATION_CHECKS_CORS_HEADERS = ''cors-headers''"

definition VALIDATION_CHECKS_CACHE_HEADERS :: string where
  "VALIDATION_CHECKS_CACHE_HEADERS = ''cache-headers''"

definition VALIDATION_CHECKS_PERFORMANCE :: string where
  "VALIDATION_CHECKS_PERFORMANCE = ''performance''"

subsection \<open>The network\<close>

text \<open>
  One run of \<^verbatim>\<open>validateDeployment\<close> performs each of the following requests at most
  once. Several of them go to the same URL, and each may succeed or fail on its own, so
  the network is a function of the place of the request in the code, not of the URL.
\<close>

datatype fetch_site =
    MainUrlHead
  | ManifestHead
  | CorsOptions
  | CacheHead
  | FetchManifestHead
  | FetchManifestGet
  | AssetHead string
  | WasmHead string
  | DuckdbConfigHead
  | DuckdbWorkerHead string
  | DuckdbConfigGet
  | PluginFrameworkHead
  | PluginDirHead
  | SecurityHead
  | SensitiveHead string
  | PerfCoreHead
  | PerfWasmHead

text \<open>
  A \<^verbatim>\<open>Response\<close>: \<open>headers\<close> is \<^verbatim>\<open>headers.get\<close> (\<open>None\<close> for \<^verbatim>\<open>null\<close>) and \<open>body\<close> what
  \<^verbatim>\<open>json()\<close> resolves to, \<open>None\<close> when it rejects.
\<close>

record response =
  ok :: bool
  http_status :: nat
  headers :: "string \<Rightarrow> string option"
  body :: "json option"

datatype fetch_result = Throws string | Responds response

text \<open>
  \<open>net\<close> is the outcome of each request (a timeout of \<^verbatim>\<open>fetchWithTimeout\<close> is a
  \<open>Throws\<close>); \<open>elapsed\<close> is the difference of the two readings of \<^verbatim>\<open>Date.now()\<close> taken
  around a request.
\<close>

record validator_env =
  net :: "fetch_site \<Rightarrow> fetch_result"
  elapsed :: "fetch_site \<Rightarrow> int"



subsection \<open>Single checks\<close>

definition checkUrlAccessible :: "validator_env \<Rightarrow> fetch_site \<Rightarrow> string \<Rightarrow> ValidationCheck" where
  "checkUrlAccessible env site nm =
     (case net env site of
        Responds r \<Rightarrow> \<lparr> name = ''connectivity-'' @ nm, status = (if ok r then Passed else Failed) \<rparr>
      | Throws err \<Rightarrow> \<lparr> name = ''connectivity-'' @ nm, status = Failed \<rparr>)"

definition checkCORSHeaders :: "validator_env \<Rightarrow> ValidationCheck" where
  "checkCORSHeaders env =
     (case net env CorsOptions of
        Responds r \<Rightarrow>
          \<lparr> name = VALIDATION_CHECKS_CORS_HEADERS,
            status = (if truthy (headers r ''Access-Control-Allow-Origin'') then Passed else Warning) \<rparr>
      | Throws err \<Rightarrow> \<lparr> name = VALIDATION_CHECKS_CORS_HEADERS, status = Failed \<rparr>)"

definition checkCacheHeaders :: "validator_env \<Rightarrow> ValidationCheck" where
  "checkCacheHeaders env =
     (case net env CacheHead of
        Responds r \<Rightarrow>
          \<lparr> name = VALIDATION_CHECKS_CACHE_HEADERS,
            status = (if truthy (headers r ''Cache-Control'') then Passed else Warning) \<rparr>
      | Throws err \<Rightarrow> \<lparr> name = VALIDATION_CHECKS_CACHE_HEADERS, status = Failed \<rparr>)"

text \<open>
  \<^verbatim>\<open>fetchManifest\<close>: the errors are the one it throws itself on a response that is not
  \<^verbatim>\<open>ok\<close>, a failed request, and a body that is not JSON.
\<close>

definition fetchManifest :: "validator_env \<Rightarrow> string + json" where
  "fetchManifest env =
     (case net env FetchManifestHead of
        Throws err \<Rightarrow> Inl err
      | Responds r \<Rightarrow>
          if \<not> ok r then Inl ''Manifest not accessible''
          else (case net env FetchManifestGet of
                  Throws err \<Rightarrow> Inl err
                | Responds g \<Rightarrow> (case body g of None \<Rightarrow> Inl ''SyntaxError'' | Some j \<Rightarrow> Inr j)))"

definition asset_check_name :: "string \<Rightarrow> string" where
  "asset_check_name assetPath =
     ''asset-'' @ map (\<lambda>c. if is_alnum c then c else CHR ''-'') assetPath"

definition validateAsset :: "validator_env \<Rightarrow> string \<Rightarrow> ValidationCheck" where
  "validateAsset env assetPath =
     (case net env (AssetHead assetPath) of
        Responds r \<Rightarrow> \<lparr> name = asset_check_name assetPath,
                        status = (if ok r then Passed else Failed) \<rparr>
      | Throws err \<Rightarrow> \<lparr> name = asset_check_name assetPath, status = Failed \<rparr>)"

definition validateAssetIntegrity :: "json \<Rightarrow> ValidationCheck" where
  "validateAssetIntegrity manifest =
     (case json_get manifest ''integrity'' of
        None \<Rightarrow> \<lparr> name = ''asset-integrity-hashes'', status = Warning \<rparr>
      | Some i \<Rightarrow>
          if \<not> json_truthy i \<or> Object_keys_length i = 0
          then \<lparr> name = ''asset-integrity-hashes'', status = Warning \<rparr>
          else \<lparr> name = ''asset-integrity-hashes'', status = Passed \<rparr>)"

subsection \<open>The groups of checks\<close>

definition runConnectivityChecks :: "validator_env \<Rightarrow> ValidationCheck list" where
  "runConnectivityChecks env =
     [checkUrlAccessible env MainUrlHead ''main-url'',
      checkUrlAccessible env ManifestHead ''manifest'',
      checkCORSHeaders env,
      checkCacheHeaders env]"

text \<open>
  Reading \<^verbatim>\<open>manifest.assets\<close> of \<^verbatim>\<open>null\<close> throws a \<^verbatim>\<open>TypeError\<close> before the first check
  is pushed; it is caught like a failed request.
\<close>

definition runAssetValidation :: "validator_env \<Rightarrow> ValidationCheck list" where
  "runAssetValidation env =
     (case fetchManifest env of
        Inl err \<Rightarrow> [\<lparr> name = VALIDATION_CHECKS_ASSET_INTEGRITY, status = Failed \<rparr>]
      | Inr manifest \<Rightarrow>
          if manifest = JNull then [\<lparr> name = VALIDATION_CHECKS_ASSET_INTEGRITY, status = Failed \<rparr>]
          else [\<lparr> name = VALIDATION_CHECKS_ASSET_INTEGRITY, status = Passed \<rparr>]
               @ map (validateAsset env)
                   [''core.min.js'', ''orchestration.min.js'', ''plugin-framework.min.js'']
               @ [validateAssetIntegrity manifest])"

text \<open>The loop over the WASM URLs; it ends at the first response that is \<^verbatim>\<open>ok\<close>.\<close>

fun wasm_probe :: "validator_env \<Rightarrow> string list \<Rightarrow> ValidationCheck list" where
  "wasm_probe env [] = [\<lparr> name = VALIDATION_CHECKS_WASM_LOADING, status = Warning \<rparr>]"
| "wasm_probe env (wasmUrl # rest) =
     (case net env (WasmHead wasmUrl) of
        Throws err \<Rightarrow> wasm_probe env rest
      | Responds r \<Rightarrow>
          if ok r
          then [\<lparr> name = VALIDATION_CHECKS_WASM_LOADING,
                  status = (if headers r ''Content-Type'' = Some ''application/wasm''
                            then Passed else Warning) \<rparr>,
                \<lparr> name = ''wasm-streaming-headers'',
                  status = (if truthy (headers r ''Cross-Origin-Embedder-Policy'')
                               \<and> truthy (headers r ''Cross-Origin-Opener-Policy'')
                            then Passed else Warning) \<rparr>]
          else wasm_probe env rest)"

definition runWasmValidation :: "validator_env \<Rightarrow> ValidationCheck list" where
  "runWasmValidation env =
     wasm_probe env [''/assets/dataprism-core.wasm'', ''/assets/dataprism_core_bg.wasm'']"

definition duckdb_asset_suffix :: "string \<Rightarrow> string" where
  "duckdb_asset_suffix asset = replace_first CHR ''.'' CHR ''-'' (split_pop CHR ''/'' asset)"

text \<open>
  The loop over the DuckDB workers: the checks it pushes and the number of workers
  found.
\<close>

fun duckdb_probe :: "validator_env \<Rightarrow> string list \<Rightarrow> ValidationCheck list \<times> nat" where
  "duckdb_probe env [] = ([], 0)"
| "duckdb_probe env (asset # rest) =
     (let (cs, found) = duckdb_probe env rest in
      case net env (DuckdbWorkerHead asset) of
        Throws err \<Rightarrow>
          (\<lparr> name = ''duckdb-worker-'' @ duckdb_asset_suffix asset, status = Warning \<rparr> # cs, found)
      | Responds r \<Rightarrow>
          if ok r
          then (\<lparr> name = ''duckdb-asset-'' @ duckdb_asset_suffix asset, status = Passed \<rparr> # cs,
                found + 1)
          else (cs, found))"

text \<open>
  The validation of the fetched configuration. A failed request, a body that is not
  JSON and a \<^verbatim>\<open>null\<close> configuration (whose properties cannot be read) all end in the
  inner \<^verbatim>\<open>catch\<close>.
\<close>

definition duckdb_config_checks :: "validator_env \<Rightarrow> ValidationCheck list" where
  "duckdb_config_checks env =
     (case net env DuckdbConfigGet of
        Throws err \<Rightarrow> [\<lparr> name = ''duckdb-config-validation'', status = Failed \<rparr>]
      | Responds r \<Rightarrow>
          (case body r of
             None \<Rightarrow> [\<lparr> name = ''duckdb-config-validation'', status = Failed \<rparr>]
           | Some config \<Rightarrow>
               if config = JNull then [\<lparr> name = ''duckdb-config-validation'', status = Failed \<rparr>]
               else
                 (let isHybrid = (json_get config ''hybrid'' = Some (JBool True));
                      hasValidStructure =
                        (json_get config ''baseUrl'' \<noteq> None
                         \<and> (if isHybrid then opt_truthy (json_get config ''workers'')
                            else opt_truthy (json_get config ''assets'')
                                 \<and> opt_truthy (json_get config ''bundles'')))
                  in [\<lparr> name = ''duckdb-config-validation'',
                        status = (if hasValidStructure then Passed else Failed) \<rparr>]
                     @ (if isHybrid \<and> opt_truthy (json_get config ''workers'')
                        then [\<lparr> name = ''duckdb-hybrid-config'', status = Passed \<rparr>] else []))))"

definition runDuckDBValidation :: "validator_env \<Rightarrow> ValidationCheck list" where
  "runDuckDBValidation env =
     (let configCheck = checkUrlAccessible env DuckdbConfigHead ''duckdb-config'';
          (workerChecks, foundAssets) =
            duckdb_probe env [''assets/duckdb-browser-mvp.worker.js'',
                              ''assets/duckdb-browser-eh.worker.js'',
                              ''assets/duckdb-browser-coi.worker.js'',
                              ''assets/duckdb-browser-coi.pthread.worker.js'']
      in [\<lparr> name = ''duckdb-config'', status = status configCheck \<rparr>]
         @ workerChecks
         @ [\<lparr> name = ''duckdb-hybrid-deployment'',
               status = (if foundAssets \<ge> 3 then Passed else Warning) \<rparr>]
         @ (if status configCheck = Passed then duckdb_config_checks env else []))"

definition runPluginValidation :: "validator_env \<Rightarrow> ValidationCheck list" where
  "runPluginValidation env =
     (case net env PluginFrameworkHead of
        Throws err \<Rightarrow> [\<lparr> name = VALIDATION_CHECKS_PLUGIN_LOADING, status = Failed \<rparr>]
      | Responds r \<Rightarrow>
          [\<lparr> name = VALIDATION_CHECKS_PLUGIN_LOADING, status = (if ok r then Passed else Failed) \<rparr>,
           (case net env PluginDirHead of
              Throws err \<Rightarrow> \<lparr> name = ''plugin-directory'', status = Warning \<rparr>
            | Responds d \<Rightarrow> \<lparr> name = ''plugin-directory'',
                              status = (if ok d then Passed else Warning) \<rparr>)])"

subsection \<open>Security\<close>

text \<open>The expected values of the security headers, in the order of the object literal.\<close>

definition securityHeaders :: "(string \<times> string list) list" where
  "securityHeaders =
     [(''X-Content-Type-Options'', [''nosniff'']),
      (''X-Frame-Options'', [''DENY'', ''SAMEORIGIN'']),
      (''X-XSS-Protection'', [''1; mode=block'']),
      (''Cross-Origin-Embedder-Policy'', [''require-corp'']),
      (''Cross-Origin-Opener-Policy'', [''same-origin''])]"

definition security_header_check :: "response \<Rightarrow> string \<times> string list \<Rightarrow> SecurityCheck" where
  "security_header_check r h =
     (case h of (headerName, expectedValue) \<Rightarrow>
        \<lparr> sec_name = ''security-header-'' @ toLowerCase headerName,
          sec_status =
            (case headers r headerName of
               None \<Rightarrow> Failed
             | Some actualValue \<Rightarrow>
                 if actualValue = [] then Failed
                 else if actualValue \<in> set expectedValue then Passed else Warning) \<rparr>)"

text \<open>The loop over the sensitive files; it returns at the first one that is served.\<close>

fun sensitive_probe :: "validator_env \<Rightarrow> string list \<Rightarrow> SecurityCheck" where
  "sensitive_probe env [] = \<lparr> sec_name = ''sensitive-info-exposure'', sec_status = Passed \<rparr>"
| "sensitive_probe env (file # rest) =
     (case net env (SensitiveHead file) of
        Throws err \<Rightarrow> sensitive_probe env rest
      | Responds r \<Rightarrow>
          if ok r then \<lparr> sec_name = ''sensitive-info-exposure'', sec_status = Failed \<rparr>
          else sensitive_probe env rest)"

definition checkSensitiveInfoExposure :: "validator_env \<Rightarrow> SecurityCheck" where
  "checkSensitiveInfoExposure env =
     sensitive_probe env [''.env'', ''config.json'', ''secrets.json'', ''.git/config'']"

definition runSecurityValidation :: "validator_env \<Rightarrow> string \<Rightarrow> SecurityCheck list" where
  "runSecurityValidation env url =
     (case net env SecurityHead of
        Throws err \<Rightarrow> [\<lparr> sec_name = ''security-validation-error'', sec_status = Failed \<rparr>]
      | Responds r \<Rightarrow>
          map (security_header_check r) securityHeaders
          @ [\<lparr> sec_name = ''https-enforcement'',
                sec_status = (if startsWith url ''https://'' then Passed else Failed) \<rparr>]
          @ [checkSensitiveInfoExposure env])"

subsection \<open>Performance\<close>

definition measurePerformance :: "validator_env \<Rightarrow> PerformanceMetrics" where
  "measurePerformance env =
     (case net env PerfCoreHead of
        Throws err \<Rightarrow> \<lparr> loadTime = 0, wasmLoadTime = 0 \<rparr>
      | Responds r \<Rightarrow>
          \<lparr> loadTime = elapsed env PerfCoreHead,
            wasmLoadTime = (case net env PerfWasmHead of
                              Throws err \<Rightarrow> - 1
                            | Responds w \<Rightarrow> elapsed env PerfWasmHead) \<rparr>)"

definition validatePerformanceMetrics :: "PerformanceMetrics \<Rightarrow> ValidationCheck list" where
  "validatePerformanceMetrics p =
     (if loadTime p > 0
      then [\<lparr> name = VALIDATION_CHECKS_PERFORMANCE,
              status = (if loadTime p < 5000 then Passed else Warning) \<rparr>] else [])
     @ (if wasmLoadTime p > 0
        then [\<lparr> name = ''performance-wasm-load'',
                status = (if wasmLoadTime p < 2000 then Passed else Warning) \<rparr>] else [])"

subsection \<open>The verdict and the whole run\<close>

definition determineOverallSuccess ::
  "ValidatorOptions \<Rightarrow> ValidationCheck list \<Rightarrow> SecurityCheck list \<Rightarrow> bool" where
  "determineOverallSuccess options cs sec =
     (if strictMode options
      then list_all (\<lambda>check. status check = Passed) cs
           \<and> list_all (\<lambda>check. sec_status check = Passed) sec
      else list_all (\<lambda>check. status check \<noteq> Failed) cs
           \<and> list_all (\<lambda>check. sec_status check \<noteq> Failed) sec)"

text \<open>
  \<^verbatim>\<open>validateDeployment\<close>. Every request above is made inside a \<^verbatim>\<open>try\<close> of the check
  that makes it, and no other statement of the body can throw, so the outer \<^verbatim>\<open>catch\<close>
  (which would return \<^verbatim>\<open>success: false\<close> with the checks made so far) is never entered
  and has no counterpart here: the function returns a result on every input.
\<close>

definition validateDeployment ::
  "ValidatorOptions \<Rightarrow> validator_env \<Rightarrow> string \<Rightarrow> ValidationResult" where
  "validateDeployment options env url =
     (let c1 = runConnectivityChecks env;
          c2 = c1 @ runAssetValidation env;
          c3 = c2 @ runWasmValidation env;
          c4 = c3 @ runDuckDBValidation env;
          c5 = c4 @ runPluginValidation env;
          sec = runSecurityValidation env url;
          perf = (if \<not> skipSlowTests options then Some (measurePerformance env) else None);
          c6 = (case perf of None \<Rightarrow> c5 | Some p \<Rightarrow> c5 @ validatePerformanceMetrics p);
          c7 = (if length (customChecks options) > 0 then c6 @ customChecks options else c6)
      in \<lparr> success = determineOverallSuccess options c7 sec,
           checks = c7,
           performance = perf,
           security = sec \<rparr>)"

subsection \<open>A concrete network\<close>

definition good_response :: response where
  "good_response =
     \<lparr> ok = True, http_status = 200, headers = (\<lambda>h. Some ''yes''),
       body = Some (JObj [(''baseUrl'', JStr ''/''), (''hybrid'', JBool True),
                          (''workers'', JObj [(''mvp'', JStr ''mvp.worker.js'')]),
                          (''integrity'', JObj [(''core.min.js'', JStr ''sha384-AAAA'')])]) \<rparr>"

definition not_found :: response where
  "not_found = \<lparr> ok = False, http_status = 404, headers = (\<lambda>h. None), body = None \<rparr>"

text \<open>
  Every request is answered and the sensitive files are not served; in the second
  network the requests for the WASM file fail.
\<close>

definition all_up :: validator_env where
  "all_up = \<lparr> net = (\<lambda>site. case site of SensitiveHead f \<Rightarrow> Responds not_found
                               | _ \<Rightarrow> Responds good_response),
              elapsed = (\<lambda>site. 120) \<rparr>"

definition wasm_down :: validator_env where
  "wasm_down = \<lparr> net = (\<lambda>site. case site of WasmHead u \<Rightarrow> Throws ''timeout''
                                  | SensitiveHead f \<Rightarrow> Responds not_found
                                  | _ \<Rightarrow> Responds good_response),
                 elapsed = (\<lambda>site. 120) \<rparr>"

definition default_options :: ValidatorOptions where
  "default_options = \<lparr> timeout = 30000, retries = 3, strictMode = False, skipSlowTests = False,
                       customChecks = [] \<rparr>"


section \<open>Deployment orchestrator\<close>

subsection \<open>Errors and the file system\<close>

text \<open>
  What is thrown: an \<^verbatim>\<open>Error\<close> created by the orchestrator itself, a \<^verbatim>\<open>TypeError\<close> of
  the language, the \<^verbatim>\<open>SyntaxError\<close> of \<^verbatim>\<open>JSON.parse\<close>, or an error of the \<^verbatim>\<open>fs\<close> module
  with its code. The last error of \<^verbatim>\<open>getDeploymentProvider\<close> prints a target that can be
  any value (\<^verbatim>\<open>Unknown deployment target: ...\<close>); it is given by the target itself.
\<close>

datatype js_error =
    Error string
  | TypeError string
  | SyntaxError
  | SystemError string
  | UnknownDeploymentTarget "json option"

text \<open>
  What a directory entry leads to, following symbolic links: a regular file with its
  bytes and the size \<^verbatim>\<open>statSync\<close> reports, a directory with its entries in the order
  \<^verbatim>\<open>readdirSync\<close> lists them, a socket (neither file nor directory), or nothing (a
  dangling link, for which \<^verbatim>\<open>statSync\<close> throws). A tree is finite, so links that form a
  cycle are outside the model.
\<close>

datatype fsnode =
    File string nat
  | Dir "(string \<times> fsnode) list"
  | Socket
  | Dangling

text \<open>
  \<^verbatim>\<open>AssetFile\<close> without \<^verbatim>\<open>mimeType\<close>, a table lookup on the extension that nothing below
  reads.
\<close>

record AssetFile =
  path :: string
  content :: string
  file_size :: nat
  file_hash :: string

record DeploymentMetadata =
  meta_deploymentId :: string
  meta_timestamp :: string
  deploy_target :: string
  meta_environment :: string

record AssetBundle =
  files :: "AssetFile list"
  manifest :: json
  totalSize :: nat
  bundle_metadata :: DeploymentMetadata

text \<open>
  \<^verbatim>\<open>DeploymentConfig\<close> without \<^verbatim>\<open>headers\<close>, \<^verbatim>\<open>redirects\<close> and \<^verbatim>\<open>secrets\<close>, which the
  orchestrator hands to the provider unread. The configuration file is spread over the
  configuration as \<^verbatim>\<open>JSON.parse\<close> returns it, with no check of types, so a property
  holds any JSON value; \<open>None\<close> is \<^verbatim>\<open>undefined\<close>.
\<close>

record DeploymentConfig =
  target :: "json option"
  repository :: "json option"
  branch :: "json option"
  customDomain :: "json option"
  environment :: "json option"
  baseUrl :: "json option"
  buildCommand :: "json option"
  outputDir :: "json option"

text \<open>
  \<^verbatim>\<open>DeploymentResult\<close> without \<^verbatim>\<open>previewUrl\<close> and \<^verbatim>\<open>metrics\<close>. The URL of a dry run
  is taken from the configuration and is a JSON value like it.
\<close>

record DeploymentResult =
  deploy_success :: bool
  deploymentId :: string
  deployed_url :: json
  logs :: "string list"
  deploy_error :: "string option"

record DeploymentOptions =
  opt_target :: "string option"
  opt_environment :: "string option"
  dryRun :: "bool option"
  validate :: "bool option"
  force :: "bool option"
  configFile :: "string option"
  assetsDir :: "string option"
  opt_baseUrl :: "string option"
  opt_repository :: "string option"
  opt_branch :: "string option"
  opt_customDomain :: "string option"

record GitHubPagesOptions =
  gh_repository :: "json option"
  gh_branch :: "json option"
  gh_customDomain :: "json option"
  token :: "string option"
  username :: string
  email :: string

text \<open>
  The world a deployment runs in: the file system (what a path leads to),
  \<^verbatim>\<open>JSON.parse\<close> (\<open>None\<close> when it throws), the SHA-384 digest, the clock and the random
  suffix of a deployment id, the process environment, and the provider, given by what
  its two methods settle to.
\<close>

record deploy_env =
  fs :: "string \<Rightarrow> fsnode option"
  JSON_parse :: "string \<Rightarrow> json option"
  file_sha384_hex :: "string \<Rightarrow> string"
  Date_now :: string
  Math_random_suffix :: string
  Date_toISOString :: string
  GITHUB_TOKEN :: "string option"
  GIT_USERNAME :: "string option"
  GIT_EMAIL :: "string option"
  provider_testConnection :: "GitHubPagesOptions \<Rightarrow> js_error + bool"
  provider_deploy ::
    "GitHubPagesOptions \<Rightarrow> AssetBundle \<Rightarrow> DeploymentConfig \<Rightarrow> js_error + DeploymentResult"

definition existsSync :: "deploy_env \<Rightarrow> string \<Rightarrow> bool" where
  "existsSync env p = (case fs env p of None \<Rightarrow> False | Some Dangling \<Rightarrow> False | Some n \<Rightarrow> True)"

fun readFileSync :: "fsnode \<Rightarrow> js_error + string" where
  "readFileSync (File c sz) = Inr c"
| "readFileSync (Dir es) = Inl (SystemError ''EISDIR'')"
| "readFileSync Socket = Inl (SystemError ''ENXIO'')"
| "readFileSync Dangling = Inl (SystemError ''ENOENT'')"

subsection \<open>Configuration\<close>

text \<open>
  One property of the configuration after \<^verbatim>\<open>{ ...config, ...fileConfig }\<close>: the value
  from the file when the parsed file is an object with this property (whatever the
  value, \<^verbatim>\<open>null\<close> included), the value the configuration has otherwise.
\<close>

definition spread_field :: "json \<Rightarrow> string \<Rightarrow> json option \<Rightarrow> json option" where
  "spread_field fileConfig k old =
     (case json_get fileConfig k of
        Some v \<Rightarrow> Some v
      | None \<Rightarrow> old)"

definition spread_config :: "DeploymentConfig \<Rightarrow> json \<Rightarrow> DeploymentConfig" where
  "spread_config config fileConfig =
     \<lparr> target = spread_field fileConfig ''target'' (target config),
       repository = spread_field fileConfig ''repository'' (repository config),
       branch = spread_field fileConfig ''branch'' (branch config),
       customDomain = spread_field fileConfig ''customDomain'' (customDomain config),
       environment = spread_field fileConfig ''environment'' (environment config),
       baseUrl = spread_field fileConfig ''baseUrl'' (baseUrl config),
       buildCommand = spread_field fileConfig ''buildCommand'' (buildCommand config),
       outputDir = spread_field fileConfig ''outputDir'' (outputDir config) \<rparr>"

text \<open>\<^verbatim>\<open>if (options.x) config.x = options.x\<close>.\<close>

definition override :: "string option \<Rightarrow> json option \<Rightarrow> json option" where
  "override opt old = (case opt of None \<Rightarrow> old | Some s \<Rightarrow> if s = [] then old else Some (JStr s))"

text \<open>
  The first three steps of \<^verbatim>\<open>loadConfiguration\<close>: the defaults, the configuration file
  if one is named and exists, and the command-line options. Reading the file and parsing
  it can throw.
\<close>

definition mergeConfiguration :: "deploy_env \<Rightarrow> DeploymentOptions \<Rightarrow> js_error + DeploymentConfig" where
  "mergeConfiguration env options =
     (let config0 = \<lparr> target = Some (JStr (or_default (opt_target options) ''github-pages'')),
                      repository = None,
                      branch = Some (JStr ''main''),
                      customDomain = None,
                      environment = Some (JStr (or_default (opt_environment options) ''production'')),
                      baseUrl = None,
                      buildCommand = None,
                      outputDir = Some (JStr ''cdn/dist'') \<rparr>;
          loaded =
            (case configFile options of
               None \<Rightarrow> Inr config0
             | Some p \<Rightarrow>
                 if p \<noteq> [] \<and> existsSync env p
                 then (case fs env p of
                         None \<Rightarrow> Inr config0
                       | Some node \<Rightarrow>
                           (case readFileSync node of
                              Inl err \<Rightarrow> Inl err
                            | Inr txt \<Rightarrow>
                                (case JSON_parse env txt of
                                   None \<Rightarrow> Inl SyntaxError
                                 | Some fileConfig \<Rightarrow> Inr (spread_config config0 fileConfig))))
                 else Inr config0)
      in case loaded of
           Inl err \<Rightarrow> Inl err
         | Inr config1 \<Rightarrow>
             Inr (config1 \<lparr> repository := override (opt_repository options) (repository config1),
                             branch := override (opt_branch options) (branch config1),
                             customDomain := override (opt_customDomain options)
                                               (customDomain config1),
                             baseUrl := override (opt_baseUrl options) (baseUrl config1) \<rparr>))"

text \<open>\<^verbatim>\<open>loadConfiguration\<close>: the merged configuration, checked for the required fields.\<close>

definition loadConfiguration :: "deploy_env \<Rightarrow> DeploymentOptions \<Rightarrow> js_error + DeploymentConfig" where
  "loadConfiguration env options =
     (case mergeConfiguration env options of
        Inl err \<Rightarrow> Inl err
      | Inr config \<Rightarrow>
          if target config = Some (JStr ''github-pages'') \<and> \<not> opt_truthy (repository config)
          then Inl (Error ''GitHub repository is required for GitHub Pages deployment'')
          else Inr config)"

subsection \<open>The asset scan\<close>

text \<open>\<^verbatim>\<open>path.join\<close> of a relative path and an entry name (POSIX separator).\<close>

definition path_join :: "string \<Rightarrow> string \<Rightarrow> string" where
  "path_join rel entryName = (if rel = [] then entryName else rel @ ''/'' @ entryName)"

definition normalize_separators :: "string \<Rightarrow> string" where
  "normalize_separators p = map (\<lambda>c. if c = CHR 0x5C then CHR ''/'' else c) p"

text \<open>
  \<^verbatim>\<open>scanDirectory\<close> and the body of its loop. The two variables of the enclosing function
  that it updates, \<^verbatim>\<open>files\<close> and \<^verbatim>\<open>totalSize\<close>, are passed and returned. An exception
  leaves the loop and the scan.
\<close>

fun scanDirectory ::
    "deploy_env \<Rightarrow> (string \<times> fsnode) list \<Rightarrow> string \<Rightarrow> AssetFile list \<times> nat
       \<Rightarrow> js_error + AssetFile list \<times> nat"
  and scanEntry ::
    "deploy_env \<Rightarrow> string \<Rightarrow> fsnode \<Rightarrow> string \<Rightarrow> AssetFile list \<times> nat
       \<Rightarrow> js_error + AssetFile list \<times> nat"
where
  "scanDirectory env [] relativePath acc = Inr acc"
| "scanDirectory env ((entryName, node) # rest) relativePath acc =
     (case scanEntry env entryName node relativePath acc of
        Inl err \<Rightarrow> Inl err
      | Inr acc' \<Rightarrow> scanDirectory env rest relativePath acc')"
| "scanEntry env entryName (Dir entries) relativePath acc =
     scanDirectory env entries (path_join relativePath entryName) acc"
| "scanEntry env entryName (File c sz) relativePath acc =
     Inr (fst acc @ [\<lparr> path = normalize_separators (path_join relativePath entryName),
                       content = c,
                       file_size = sz,
                       file_hash = file_sha384_hex env c \<rparr>],
          snd acc + sz)"
| "scanEntry env entryName Socket relativePath acc = Inr acc"
| "scanEntry env entryName Dangling relativePath acc = Inl (SystemError ''ENOENT'')"

definition generateDeploymentId :: "deploy_env \<Rightarrow> string" where
  "generateDeploymentId env = ''deploy_'' @ Date_now env @ ''_'' @ Math_random_suffix env"

definition prepareAssetBundle :: "deploy_env \<Rightarrow> string \<Rightarrow> js_error + AssetBundle" where
  "prepareAssetBundle env dir =
     (if \<not> existsSync env dir then Inl (Error (''Assets directory not found: '' @ dir))
      else
        (case fs env dir of
           Some (Dir entries) \<Rightarrow>
             (case scanDirectory env entries [] ([], 0) of
                Inl err \<Rightarrow> Inl err
              | Inr (scanned, total_bytes) \<Rightarrow>
                  (let loaded =
                         (case map_of entries ''manifest.json'' of
                            None \<Rightarrow> Inr (JObj [])
                          | Some Dangling \<Rightarrow> Inr (JObj [])
                          | Some node \<Rightarrow>
                              (case readFileSync node of
                                 Inl err \<Rightarrow> Inl err
                               | Inr txt \<Rightarrow>
                                   (case JSON_parse env txt of
                                      None \<Rightarrow> Inl SyntaxError
                                    | Some j \<Rightarrow> Inr j)))
                   in case loaded of
                        Inl err \<Rightarrow> Inl err
                      | Inr m \<Rightarrow>
                          Inr \<lparr> files = scanned,
                                manifest = m,
                                totalSize = total_bytes,
                                bundle_metadata =
                                  \<lparr> meta_deploymentId = generateDeploymentId env,
                                    meta_timestamp = Date_toISOString env,
                                    deploy_target = ''unknown'',
                                    meta_environment = ''production'' \<rparr> \<rparr>))
         | _ \<Rightarrow> Inl (SystemError ''ENOTDIR'')))"

subsection \<open>The asset summary\<close>

definition asset_type :: "string \<Rightarrow> string" where
  "asset_type p =
     (let popped = toLowerCase (split_pop CHR ''.'' p);
          ext = (if popped = [] then ''unknown'' else popped)
      in if ext = ''js'' then ''JavaScript''
         else if ext = ''wasm'' then ''WebAssembly''
         else if ext = ''json'' then ''JSON''
         else if ext = ''map'' then ''Source Maps''
         else ext)"

text \<open>
  \<^verbatim>\<open>groups\<close> is an object literal used as a dictionary, so \<^verbatim>\<open>groups[type]\<close> also finds
  what every object inherits. For the two inherited names that a lower-cased extension
  can be, \<^verbatim>\<open>constructor\<close> and \<^verbatim>\<open>__proto__\<close>, the value found is truthy and is not an
  array: no array is stored, and the call of its \<^verbatim>\<open>push\<close> throws a \<^verbatim>\<open>TypeError\<close>.
\<close>

definition inherited_names :: "string list" where
  "inherited_names = [''constructor'', ''__proto__'']"

fun groupAssetsByType ::
  "AssetFile list \<Rightarrow> (string \<times> AssetFile list) list \<Rightarrow> js_error + (string \<times> AssetFile list) list" where
  "groupAssetsByType [] groups = Inr groups"
| "groupAssetsByType (file # rest) groups =
     (let ty = asset_type (path file) in
      if ty \<in> set inherited_names then Inl (TypeError ''groups[type].push is not a function'')
      else groupAssetsByType rest
             (case map_of groups ty of
                None \<Rightarrow> groups @ [(ty, [file])]
              | Some fs' \<Rightarrow> map_set ty (fs' @ [file]) groups))"

text \<open>The summary lines: type, number of files, size (in the order the types first occur).\<close>

definition printAssetSummary :: "AssetBundle \<Rightarrow> js_error + (string \<times> nat \<times> nat) list" where
  "printAssetSummary bundle =
     (case groupAssetsByType (files bundle) [] of
        Inl err \<Rightarrow> Inl err
      | Inr groups \<Rightarrow>
          Inr (map (\<lambda>(ty, fs'). (ty, length fs', sum_list (map file_size fs'))) groups))"

subsection \<open>Deployment\<close>

definition quote :: string where
  "quote = [CHR 0x27]"

text \<open>\<^verbatim>\<open>x || d\<close> for a property of the configuration and a string.\<close>

definition json_or_default :: "json option \<Rightarrow> string \<Rightarrow> json" where
  "json_or_default x d = (case x of None \<Rightarrow> JStr d | Some j \<Rightarrow> if json_truthy j then j else JStr d)"

definition getDeploymentProvider :: "deploy_env \<Rightarrow> DeploymentConfig \<Rightarrow> js_error + GitHubPagesOptions" where
  "getDeploymentProvider env config =
     (if target config = Some (JStr ''github-pages'')
      then (if \<not> opt_truthy (repository config)
            then Inl (Error ''GitHub repository is required for GitHub Pages deployment'')
            else Inr \<lparr> gh_repository = repository config,
                       gh_branch = branch config,
                       gh_customDomain = customDomain config,
                       token = GITHUB_TOKEN env,
                       username = or_default (GIT_USERNAME env) ''github-actions[bot]'',
                       email = or_default (GIT_EMAIL env)
                                 ''github-actions[bot]@users.noreply.github.com'' \<rparr>)
      else (case target config of
              Some (JStr t) \<Rightarrow>
                if t \<in> {''cloudflare-pages'', ''netlify'', ''vercel''}
                then Inl (Error (''Deployment target '' @ quote @ t @ quote
                                 @ '' is not yet implemented''))
                else Inl (UnknownDeploymentTarget (target config))
            | _ \<Rightarrow> Inl (UnknownDeploymentTarget (target config))))"

text \<open>
  The calls on collaborators that a deployment makes, in order. The private
  \<^verbatim>\<open>validateDeployment\<close> catches whatever the validator throws, so it only leaves its
  call behind.
\<close>

datatype collaborator_call =
    ProviderConstructed
  | ProviderTestConnection
  | ProviderDeploy
  | ValidatorValidateDeployment json

record deploy_run =
  calls :: "collaborator_call list"
  settled :: "js_error + DeploymentResult"

text \<open>
  \<^verbatim>\<open>deploy\<close>. Its \<^verbatim>\<open>catch\<close> logs the error and throws it again, so an error of any step is
  what the call rejects with.
\<close>

definition deploy :: "deploy_env \<Rightarrow> DeploymentOptions \<Rightarrow> deploy_run" where
  "deploy env options =
     (case loadConfiguration env options of
        Inl err \<Rightarrow> \<lparr> calls = [], settled = Inl err \<rparr>
      | Inr config \<Rightarrow>
      (case prepareAssetBundle env (or_default (assetsDir options) ''cdn/dist'') of
        Inl err \<Rightarrow> \<lparr> calls = [], settled = Inl err \<rparr>
      | Inr bundle \<Rightarrow>
      if dryRun options = Some True
      then (case printAssetSummary bundle of
              Inl err \<Rightarrow> \<lparr> calls = [], settled = Inl err \<rparr>
            | Inr summary \<Rightarrow>
                \<lparr> calls = [],
                  settled = Inr \<lparr> deploy_success = True,
                                  deploymentId = ''dry-run'',
                                  deployed_url = json_or_default (baseUrl config)
                                                   ''https://example.com'',
                                  logs = [''Dry run completed successfully''],
                                  deploy_error = None \<rparr> \<rparr>)
      else
      (case getDeploymentProvider env config of
        Inl err \<Rightarrow> \<lparr> calls = (if target config = Some (JStr ''github-pages'')
                               then [ProviderConstructed] else []),
                      settled = Inl err \<rparr>
      | Inr provider \<Rightarrow>
      (case provider_testConnection env provider of
        Inl err \<Rightarrow> \<lparr> calls = [ProviderConstructed, ProviderTestConnection], settled = Inl err \<rparr>
      | Inr connected \<Rightarrow>
      if \<not> connected
      then \<lparr> calls = [ProviderConstructed, ProviderTestConnection],
             settled = Inl (Error ''Failed to connect to deployment provider'') \<rparr>
      else
      (case provider_deploy env provider bundle config of
        Inl err \<Rightarrow> \<lparr> calls = [ProviderConstructed, ProviderTestConnection, ProviderDeploy],
                      settled = Inl err \<rparr>
      | Inr result \<Rightarrow>
      if \<not> deploy_success result
      then \<lparr> calls = [ProviderConstructed, ProviderTestConnection, ProviderDeploy],
             settled = Inl (Error (or_default (deploy_error result) ''Deployment failed'')) \<rparr>
      else \<lparr> calls = [ProviderConstructed, ProviderTestConnection, ProviderDeploy]
                     @ (if validate options \<noteq> Some False
                        then [ValidatorValidateDeployment (deployed_url result)] else []),
             settled = Inr result \<rparr>)))))"

subsection \<open>A concrete world\<close>

text \<open>
  A provider that cannot be reached and would fail, no \<^verbatim>\<open>GITHUB_TOKEN\<close>, and three asset
  directories: \<^verbatim>\<open>dist\<close> with two files, \<^verbatim>\<open>empty\<close> with none, and \<^verbatim>\<open>odd\<close> with one file
  that is called \<^verbatim>\<open>constructor\<close>.
\<close>

definition example_world :: deploy_env where
  "example_world =
     \<lparr> fs = (\<lambda>p. if p = ''dist''
                  then Some (Dir [(''core.min.js'', File ''helloworld'' 10),
                                  (''app.wasm'', File ''0asm'' 4)])
                  else if p = ''empty'' then Some (Dir [])
                  else if p = ''odd'' then Some (Dir [(''constructor'', File ''x'' 1)])
                  else None),
       JSON_parse = (\<lambda>text. None),
       file_sha384_hex = (\<lambda>c. c),
       Date_now = ''1700000000000'',
       Math_random_suffix = ''abc123'',
       Date_toISOString = ''2023-11-14T22:13:20.000Z'',
       GITHUB_TOKEN = None,
       GIT_USERNAME = None,
       GIT_EMAIL = None,
       provider_testConnection = (\<lambda>p. Inr False),
       provider_deploy = (\<lambda>p b c. Inl (Error ''no token'')) \<rparr>"

definition dry_run_options :: "string \<Rightarrow> DeploymentOptions" where
  "dry_run_options dir =
     \<lparr> opt_target = Some ''github-pages'', opt_environment = None, dryRun = Some True,
       validate = None, force = None, configFile = None, assetsDir = Some dir,
       opt_baseUrl = None, opt_repository = Some ''myorg/myrepo'', opt_branch = None,
       opt_customDomain = None \<rparr>"

text \<open>
  A second world, for what can go wrong before the dry-run test. Its paths: \<^verbatim>\<open>notadir\<close>
  is a regular file; \<^verbatim>\<open>dangling\<close> holds a link to nothing; in \<^verbatim>\<open>badmanifest\<close> the file
  \<^verbatim>\<open>manifest.json\<close> is not JSON and in \<^verbatim>\<open>manifestdir\<close> it is a directory; \<^verbatim>\<open>dist\<close> is
  a directory with one file. The configuration file \<^verbatim>\<open>no-repo.json\<close> names the target
  \<^verbatim>\<open>github-pages\<close> and no repository, \<^verbatim>\<open>null-repo.json\<close> sets the repository to
  \<^verbatim>\<open>null\<close>, \<^verbatim>\<open>number-repo.json\<close> sets it to the number 123, and \<^verbatim>\<open>broken.json\<close> is not
  JSON. The texts of the files are not spelled out: \<open>JSON_parse\<close> gives what each
  parses to.
\<close>

definition broken_world :: deploy_env where
  "broken_world =
     \<lparr> fs = (\<lambda>p. if p = ''notadir'' then Some (File ''x'' 1)
                  else if p = ''dangling'' then Some (Dir [(''link'', Dangling)])
                  else if p = ''badmanifest'' then Some (Dir [(''manifest.json'', File ''{'' 1)])
                  else if p = ''manifestdir'' then Some (Dir [(''manifest.json'', Dir [])])
                  else if p = ''dist'' then Some (Dir [(''core.min.js'', File ''helloworld'' 10)])
                  else if p = ''no-repo.json'' then Some (File ''no-repo'' 7)
                  else if p = ''null-repo.json'' then Some (File ''null-repo'' 9)
                  else if p = ''number-repo.json'' then Some (File ''number-repo'' 11)
                  else if p = ''broken.json'' then Some (File ''{'' 1)
                  else None),
       JSON_parse = (\<lambda>txt. if txt = ''no-repo'' then Some (JObj [(''target'', JStr ''github-pages'')])
                          else if txt = ''null-repo'' then Some (JObj [(''repository'', JNull)])
                          else if txt = ''number-repo'' then Some (JObj [(''repository'', JNum 123)])
                          else None),
       file_sha384_hex = (\<lambda>c. c),
       Date_now = ''1700000000000'',
       Math_random_suffix = ''abc123'',
       Date_toISOString = ''2023-11-14T22:13:20.000Z'',
       GITHUB_TOKEN = None,
       GIT_USERNAME = None,
       GIT_EMAIL = None,
       provider_testConnection = (\<lambda>p. Inr False),
       provider_deploy = (\<lambda>p b c. Inl (Error ''no token'')) \<rparr>"

text \<open>A dry run with a configuration file and no repository option.\<close>

definition dry_run_with_config :: "string \<Rightarrow> string \<Rightarrow> DeploymentOptions" where
  "dry_run_with_config file dir =
     \<lparr> opt_target = None, opt_environment = None, dryRun = Some True,
       validate = None, force = None, configFile = Some file, assetsDir = Some dir,
       opt_baseUrl = None, opt_repository = None, opt_branch = None,
       opt_customDomain = None \<rparr>"

section \<open>Properties of the manifest builder\<close>

subsection \<open>Auxiliary facts\<close>

lemma array_find_None_iff: "array_find P xs = None \<longleftrightarrow> (\<forall>x\<in>set xs. \<not> P x)"
  by (induction xs) auto

lemma array_find_Some_iff:
  "array_find P xs = Some a \<longleftrightarrow> (\<exists>pre post. xs = pre @ a # post \<and> P a \<and> (\<forall>b\<in>set pre. \<not> P b))"
proof (induction xs)
  case Nil
  then show ?case by simp
next
  case (Cons x xs)
  show ?case
  proof (cases "P x")
    case True
    have "(\<exists>pre post. x # xs = pre @ a # post \<and> P a \<and> (\<forall>b\<in>set pre. \<not> P b)) \<longleftrightarrow> x = a"
    proof
      assume "\<exists>pre post. x # xs = pre @ a # post \<and> P a \<and> (\<forall>b\<in>set pre. \<not> P b)"
      then obtain pre post where h: "x # xs = pre @ a # post" "\<forall>b\<in>set pre. \<not> P b" by blast
      show "x = a"
      proof (cases pre)
        case Nil
        with h show ?thesis by simp
      next
        case (Cons p ps)
        with h True show ?thesis by auto
      qed
    next
      assume "x = a"
      with True have "x # xs = [] @ a # xs \<and> P a \<and> (\<forall>b\<in>set []. \<not> P b)" by simp
      then show "\<exists>pre post. x # xs = pre @ a # post \<and> P a \<and> (\<forall>b\<in>set pre. \<not> P b)" by blast
    qed
    with True show ?thesis by simp
  next
    case False
    have "(\<exists>pre post. x # xs = pre @ a # post \<and> P a \<and> (\<forall>b\<in>set pre. \<not> P b))
          \<longleftrightarrow> (\<exists>pre post. xs = pre @ a # post \<and> P a \<and> (\<forall>b\<in>set pre. \<not> P b))"
    proof
      assume "\<exists>pre post. x # xs = pre @ a # post \<and> P a \<and> (\<forall>b\<in>set pre. \<not> P b)"
      then obtain pre post where h: "x # xs = pre @ a # post" "P a" "\<forall>b\<in>set pre. \<not> P b" by blast
      show "\<exists>pre post. xs = pre @ a # post \<and> P a \<and> (\<forall>b\<in>set pre. \<not> P b)"
      proof (cases pre)
        case Nil
        with h False show ?thesis by simp
      next
        case (Cons p ps)
        with h have "xs = ps @ a # post \<and> P a \<and> (\<forall>b\<in>set ps. \<not> P b)" by simp
        then show ?thesis by blast
      qed
    next
      assume "\<exists>pre post. xs = pre @ a # post \<and> P a \<and> (\<forall>b\<in>set pre. \<not> P b)"
      then obtain pre post where h: "xs = pre @ a # post" "P a" "\<forall>b\<in>set pre. \<not> P b" by blast
      with False have "x # xs = (x # pre) @ a # post \<and> P a \<and> (\<forall>b\<in>set (x # pre). \<not> P b)" by simp
      then show "\<exists>pre post. x # xs = pre @ a # post \<and> P a \<and> (\<forall>b\<in>set pre. \<not> P b)" by blast
    qed
    with False Cons.IH show ?thesis by simp
  qed
qed

lemma map_set_fresh: "k \<notin> fst ` set m \<Longrightarrow> map_set k v m = m @ [(k, v)]"
  by (induction m) force+

lemma map_set_present: "k \<in> fst ` set m \<Longrightarrow> map fst (map_set k v m) = map fst m"
  by (induction m) force+

lemma map_fst_map_set:
  "map fst (map_set k v m) = (if k \<in> fst ` set m then map fst m else map fst m @ [k])"
  by (simp add: map_set_fresh map_set_present)

lemma set_map_set_keys: "fst ` set (map_set k v m) = insert k (fst ` set m)"
proof -
  have "set (map fst (map_set k v m)) = insert k (set (map fst m))"
    unfolding map_fst_map_set by auto
  then show ?thesis by simp
qed

lemma map_set_values_keyed:
  "\<forall>(k', a) \<in> set m. f a = k' \<Longrightarrow> f v = k \<Longrightarrow> \<forall>(k', a) \<in> set (map_set k v m). f a = k'"
  by (induction m) (auto split: if_splits)

lemma filename_createAssetInfo [simp]: "filename (createAssetInfo env t f src cfg) = f"
  by (simp add: createAssetInfo_def Let_def)

lemma asset_hash_createAssetInfo [simp]:
  "asset_hash (createAssetInfo env t f src cfg) = sha384_hex env (Buffer_from src)"
  by (simp add: createAssetInfo_def Let_def)

lemma asset_size_createAssetInfo [simp]:
  "asset_size (createAssetInfo env t f src cfg) = length (Buffer_from src)"
  by (simp add: createAssetInfo_def Let_def)

lemma filename_createWasmAssetInfo [simp]: "filename (createWasmAssetInfo env t f src cfg) = f"
  by (simp add: createWasmAssetInfo_def AssetInfo.defs WasmAssetInfo.defs)

lemma asset_hash_createWasmAssetInfo [simp]:
  "asset_hash (createWasmAssetInfo env t f src cfg) = sha384_hex env (Buffer_from src)"
  by (simp add: createWasmAssetInfo_def AssetInfo.defs WasmAssetInfo.defs)

lemma createPluginAssetInfo_Some:
  "createPluginAssetInfo env t f src cfg = Some p \<Longrightarrow>
     filename p = f \<and> asset_hash p = sha384_hex env (Buffer_from src)"
  by (auto simp add: createPluginAssetInfo_def AssetInfo.defs PluginAssetInfo.defs)

lemma keyed_set_asset:
  assumes "keyed st" "filename v = f"
  shows "keyed (st \<lparr> assetMap := map_set f v (assetMap st), ticks := n \<rparr>)"
proof -
  have "\<forall>(k', a) \<in> set (map_set f v (assetMap st)). filename a = k'"
    using assms by (intro map_set_values_keyed) (simp_all add: keyed_def)
  moreover have "fst ` set (map_set f v (assetMap st)) = insert f (fst ` set (assetMap st))"
    by (rule set_map_set_keys)
  ultimately show ?thesis using assms(1) unfolding keyed_def by auto
qed

lemma keyed_ticks: "keyed st \<Longrightarrow> keyed (st \<lparr> ticks := n \<rparr>)"
  by (simp add: keyed_def)

lemma keyed_push_wasm:
  "keyed st \<Longrightarrow> filename w \<in> fst ` set (assetMap st) \<Longrightarrow>
     keyed (st \<lparr> wasmAssets := wasmAssets st @ [w], ticks := n \<rparr>)"
  by (simp add: keyed_def)

lemma keyed_push_plugin:
  "keyed st \<Longrightarrow> filename p \<in> fst ` set (assetMap st) \<Longrightarrow>
     keyed (st \<lparr> pluginAssets := pluginAssets st @ [p], ticks := n \<rparr>)"
  by (simp add: keyed_def)

lemma keyed_process_entry: "keyed st \<Longrightarrow> keyed (process_entry env cfg st e)"
proof -
  assume k: "keyed st"
  obtain f item where e: "e = (f, item)" by (cases e)
  show ?thesis
  proof (cases item)
    case (OutputAsset src)
    define st1 where "st1 = st \<lparr> assetMap := map_set f (createAssetInfo env (ticks st) f src cfg) (assetMap st),
                                ticks := ticks st + 1 \<rparr>"
    have k1: "keyed st1" unfolding st1_def using k by (rule keyed_set_asset) simp
    have fin: "f \<in> fst ` set (assetMap st1)" unfolding st1_def by (simp add: set_map_set_keys)
    have pe: "process_entry env cfg st e =
      (if endsWith f ''.wasm''
         then st1 \<lparr> wasmAssets := wasmAssets st1 @ [createWasmAssetInfo env (ticks st1) f src cfg],
                    ticks := ticks st1 + 1 \<rparr>
         else if str_includes f ''plugin''
         then (case createPluginAssetInfo env (ticks st1) f src cfg of
                 Some pluginInfo \<Rightarrow> st1 \<lparr> pluginAssets := pluginAssets st1 @ [pluginInfo],
                                          ticks := ticks st1 + 1 \<rparr>
               | None \<Rightarrow> st1 \<lparr> ticks := ticks st1 + 1 \<rparr>)
         else st1)"
      unfolding e OutputAsset st1_def by (simp only: process_entry.simps Let_def)
    show ?thesis
    proof (cases "endsWith f ''.wasm''")
      case True
      then show ?thesis unfolding pe using k1 fin by (simp add: keyed_push_wasm)
    next
      case False
      show ?thesis
      proof (cases "str_includes f ''plugin''")
        case True
        show ?thesis
        proof (cases "createPluginAssetInfo env (ticks st1) f src cfg")
          case None
          then show ?thesis unfolding pe using False True k1 by (simp add: keyed_ticks)
        next
          case (Some p)
          then have "filename p = f" by (simp add: createPluginAssetInfo_Some)
          then show ?thesis unfolding pe using False True Some k1 fin by (simp add: keyed_push_plugin)
        qed
      next
        case False2: False
        then show ?thesis unfolding pe using False k1 by simp
      qed
    qed
  next
    case (OutputChunk code)
    show ?thesis unfolding e OutputChunk using k by (simp add: keyed_set_asset)
  qed
qed

lemma keyed_process_bundle: "keyed st \<Longrightarrow> keyed (process_bundle env cfg st b)"
  unfolding process_bundle_def
  by (induction b arbitrary: st) (simp_all add: keyed_process_entry)

lemma keyed_initial: "keyed initial_state"
  by (simp add: keyed_def initial_state_def)

lemma array_find_in_set: "array_find P xs = Some a \<Longrightarrow> a \<in> set xs"
  by (induction xs) (auto split: if_splits)

lemma first_elem_in_set: "first_elem xs = Some a \<Longrightarrow> a \<in> set xs"
  by (cases xs) auto

lemma or_else_cases: "or_else x y = Some a \<Longrightarrow> x = Some a \<or> y = Some a"
  by (cases x) auto

lemma integrity_keys:
  "fst ` set (integrity (generateManifest env t amap ps ws cfg)) = fst ` set amap - {''__proto__''}"
proof -
  have "fst ` set (integrity (generateManifest env t amap ps ws cfg))
      = fst ` set (filter (\<lambda>(fname, asset). fname \<noteq> ''__proto__'') amap)"
    by (simp add: generateManifest_def Let_def generateIntegrityMap_def split_def image_image)
  also have "\<dots> = fst ` set amap - {''__proto__''}"
    by (induction amap) (auto simp: split_def)
  finally show ?thesis .
qed

lemma core_in_values:
  "core (assets (generateManifest env t amap ps ws cfg)) = Some a \<Longrightarrow> a \<in> snd ` set amap"
  by (auto simp: generateManifest_def Let_def map_values_def
      dest!: or_else_cases dest: array_find_in_set first_elem_in_set)

lemma orchestration_in_values:
  "orchestration (assets (generateManifest env t amap ps ws cfg)) = Some a \<Longrightarrow> a \<in> snd ` set amap"
  by (auto simp: generateManifest_def Let_def map_values_def
      dest!: or_else_cases dest: array_find_in_set first_elem_in_set)

lemma pluginFramework_in_values:
  "pluginFramework (assets (generateManifest env t amap ps ws cfg)) = Some a \<Longrightarrow> a \<in> snd ` set amap"
  by (auto simp: generateManifest_def Let_def map_values_def
      dest!: or_else_cases dest: array_find_in_set first_elem_in_set)

lemma plugins_wasm_manifest:
  "plugins (assets (generateManifest env t amap ps ws cfg)) = ps"
  "wasm (assets (generateManifest env t amap ps ws cfg)) = ws"
  by (simp_all add: generateManifest_def Let_def)

lemma manifest_assets_subset_integrity:
  assumes k: "keyed st"
  shows "manifest_asset_filenames
           (assets (generateManifest env t (assetMap st) (pluginAssets st) (wasmAssets st) cfg))
           - {''__proto__''}
         \<subseteq> fst ` set (integrity
           (generateManifest env t (assetMap st) (pluginAssets st) (wasmAssets st) cfg))"
proof -
  let ?m = "generateManifest env t (assetMap st) (pluginAssets st) (wasmAssets st) cfg"
  have ik: "fst ` set (integrity ?m) = fst ` set (assetMap st) - {''__proto__''}"
    by (rule integrity_keys)
  have v: "filename a \<in> fst ` set (assetMap st)" if "a \<in> snd ` set (assetMap st)" for a
  proof -
    from that obtain k' where m: "(k', a) \<in> set (assetMap st)" by auto
    with k have "filename a = k'" unfolding keyed_def by blast
    with m show ?thesis by (metis fst_conv image_eqI)
  qed
  have o: "filename ` set_option (orchestration (assets ?m)) \<subseteq> fst ` set (assetMap st)"
  proof (cases "orchestration (assets ?m)")
    case None
    then show ?thesis by simp
  next
    case (Some a)
    then have "a \<in> snd ` set (assetMap st)" by (rule orchestration_in_values)
    then have "filename a \<in> fst ` set (assetMap st)" by (rule v)
    with Some show ?thesis by simp
  qed
  have pf: "filename ` set_option (pluginFramework (assets ?m)) \<subseteq> fst ` set (assetMap st)"
  proof (cases "pluginFramework (assets ?m)")
    case None
    then show ?thesis by simp
  next
    case (Some a)
    then have "a \<in> snd ` set (assetMap st)" by (rule pluginFramework_in_values)
    then have "filename a \<in> fst ` set (assetMap st)" by (rule v)
    with Some show ?thesis by simp
  qed
  have c: "filename ` set_option (core (assets ?m)) \<subseteq> fst ` set (assetMap st)"
  proof (cases "core (assets ?m)")
    case None
    then show ?thesis by simp
  next
    case (Some a)
    then have "a \<in> snd ` set (assetMap st)" by (rule core_in_values)
    then have "filename a \<in> fst ` set (assetMap st)" by (rule v)
    with Some show ?thesis by simp
  qed
  have p: "filename ` set (plugins (assets ?m)) \<subseteq> fst ` set (assetMap st)"
    using k unfolding plugins_wasm_manifest keyed_def by blast
  have w: "filename ` set (wasm (assets ?m)) \<subseteq> fst ` set (assetMap st)"
    using k unfolding plugins_wasm_manifest keyed_def by blast
  have "manifest_asset_filenames (assets ?m) \<subseteq> fst ` set (assetMap st)"
    unfolding manifest_asset_filenames_def image_Un
    using c o pf p w by (intro Un_least)
  then show ?thesis unfolding ik by (rule Diff_mono) simp
qed

lemma keys_process_entry:
  "fst ` set (assetMap (process_entry env cfg st e)) = insert (fst e) (fst ` set (assetMap st))"
proof -
  obtain f item where e: "e = (f, item)" by (cases e)
  show ?thesis
  proof (cases item)
    case (OutputAsset src)
    then show ?thesis unfolding e
      by (simp add: Let_def set_map_set_keys createPluginAssetInfo_def)
  next
    case (OutputChunk code)
    then show ?thesis unfolding e by (simp add: set_map_set_keys)
  qed
qed

lemma keys_process_bundle:
  "fst ` set (assetMap (process_bundle env cfg st b)) = fst ` set (assetMap st) \<union> fst ` set b"
  unfolding process_bundle_def
proof (induction b arbitrary: st)
  case Nil
  then show ?case by simp
next
  case (Cons e b)
  show ?case unfolding foldl_Cons Cons.IH keys_process_entry by auto
qed

lemma state_after_generateBundle:
  "state_after (generateBundle env cfg st b)
     = (process_bundle env cfg st b) \<lparr> ticks := ticks (process_bundle env cfg st b) + 2 \<rparr>"
  by (simp add: generateBundle_def Let_def)

lemma keyed_hook_calls: "keyed st \<Longrightarrow> keyed (hook_calls cfg st runs)"
proof (induction runs arbitrary: st)
  case Nil
  then show ?case by simp
next
  case (Cons r runs)
  obtain env b where r: "r = (env, b)" by (cases r)
  have "keyed (state_after (generateBundle env cfg st b))"
    unfolding state_after_generateBundle
    using Cons.prems by (intro keyed_ticks keyed_process_bundle)
  then show ?case unfolding r hook_calls.simps by (rule Cons.IH)
qed

lemma keys_hook_calls:
  "fst ` set (assetMap (hook_calls cfg st runs))
     = fst ` set (assetMap st) \<union> (\<Union>r \<in> set runs. fst ` set (snd r))"
proof (induction runs arbitrary: st)
  case Nil
  then show ?case by simp
next
  case (Cons r runs)
  obtain env b where r: "r = (env, b)" by (cases r)
  have "fst ` set (assetMap (state_after (generateBundle env cfg st b)))
      = fst ` set (assetMap st) \<union> fst ` set b"
    unfolding state_after_generateBundle by (simp add: keys_process_bundle)
  then show ?case unfolding r hook_calls.simps Cons.IH by auto
qed

text \<open>The unfolding that evaluates the manifest builder on a concrete bundle.\<close>

lemmas manifest_eval = Let_def generateManifest_def process_bundle_def initial_state_def createAssetInfo_def
  example_env_def example_config_def bundle_manifest_def generateIntegrityMap_def
     map_values_def str_includes_def sublist_code getCacheDuration_def endsWith_def suffix_to_prefix
  manifest_asset_filenames_def


subsection \<open>Integrity keys and the files listed under \<^verbatim>\<open>assets\<close>\<close>

text \<open>
  Claim C2 says that every key of \<^verbatim>\<open>manifest.integrity\<close> names a file listed under
  \<^verbatim>\<open>manifest.assets\<close>. The integrity record has one key per entry of the asset map,
  while \<^verbatim>\<open>assets\<close> lists only the three chosen files, the plugins and the WASM files:
  for the bundle of two chunks \<^verbatim>\<open>core.js\<close> and \<^verbatim>\<open>utils.js\<close> the key \<^verbatim>\<open>utils.js\<close> is
  not listed under \<^verbatim>\<open>assets\<close>.
\<close>

theorem integrity_subset_counterexample:
  "\<not> fst ` set (integrity (bundle_manifest example_env example_config
           [(''core.js'', OutputChunk ''a''), (''utils.js'', OutputChunk ''b'')]))
      \<subseteq> manifest_asset_filenames (assets (bundle_manifest example_env example_config
           [(''core.js'', OutputChunk ''a''), (''utils.js'', OutputChunk ''b'')]))"
  by (simp add: manifest_eval)


text \<open>
  Claim C2, amended. The hook emits \<^verbatim>\<open>manifest.json\<close> first, on every call. The keys of
  \<^verbatim>\<open>manifest.integrity\<close> are exactly the file names of the asset map given to
  \<^verbatim>\<open>generateManifest\<close>, except the name \<^verbatim>\<open>__proto__\<close>, for which the plain object stores
  nothing; for the manifest of any call of the hook these are the file names of the
  bundle of this call and of the bundles of all earlier calls on the same plugin
  instance; and every file listed under \<^verbatim>\<open>manifest.assets\<close> (core, orchestration,
  pluginFramework, plugins, wasm), a file called \<^verbatim>\<open>__proto__\<close> apart, is one of these
  keys. The inclusion holds in this direction.
\<close>

theorem integrity_keys_cover_manifest_assets:
  "fst ` set (integrity (generateManifest env t amap ps ws config))
     = fst ` set amap - {''__proto__''}
   \<and> emitted (generateBundle env config (hook_calls config initial_state earlier) bundle) ! 0
     = (''manifest.json'',
        ManifestJson (hook_manifest env config (hook_calls config initial_state earlier) bundle))
   \<and> fst ` set (integrity
          (hook_manifest env config (hook_calls config initial_state earlier) bundle))
     = ((\<Union>r \<in> set earlier. fst ` set (snd r)) \<union> fst ` set bundle) - {''__proto__''}
   \<and> manifest_asset_filenames
         (assets (hook_manifest env config (hook_calls config initial_state earlier) bundle))
       - {''__proto__''}
     \<subseteq> fst ` set (integrity
          (hook_manifest env config (hook_calls config initial_state earlier) bundle))"
proof (intro conjI)
  show "fst ` set (integrity (generateManifest env t amap ps ws config))
     = fst ` set amap - {''__proto__''}"
    by (rule integrity_keys)
  define st0 where "st0 = hook_calls config initial_state earlier"
  define st where "st = process_bundle env config st0 bundle"
  have hm: "hook_manifest env config st0 bundle =
      generateManifest env (ticks st) (assetMap st) (pluginAssets st) (wasmAssets st) config"
    by (simp add: hook_manifest_def st_def Let_def)
  show "emitted (generateBundle env config (hook_calls config initial_state earlier) bundle) ! 0
     = (''manifest.json'',
        ManifestJson (hook_manifest env config (hook_calls config initial_state earlier) bundle))"
    by (simp add: generateBundle_def hook_manifest_def Let_def)
  have k0: "keyed st0" unfolding st0_def by (rule keyed_hook_calls) (rule keyed_initial)
  have k: "keyed st" unfolding st_def using k0 by (rule keyed_process_bundle)
  have "fst ` set (assetMap st0) = (\<Union>r \<in> set earlier. fst ` set (snd r))"
    unfolding st0_def keys_hook_calls by (simp add: initial_state_def)
  then have keys: "fst ` set (assetMap st)
      = (\<Union>r \<in> set earlier. fst ` set (snd r)) \<union> fst ` set bundle"
    unfolding st_def keys_process_bundle by simp
  show "fst ` set (integrity
          (hook_manifest env config (hook_calls config initial_state earlier) bundle))
     = ((\<Union>r \<in> set earlier. fst ` set (snd r)) \<union> fst ` set bundle) - {''__proto__''}"
    unfolding st0_def [symmetric] hm integrity_keys keys by simp
  show "manifest_asset_filenames
         (assets (hook_manifest env config (hook_calls config initial_state earlier) bundle))
       - {''__proto__''}
     \<subseteq> fst ` set (integrity
          (hook_manifest env config (hook_calls config initial_state earlier) bundle))"
    unfolding st0_def [symmetric] hm using k by (rule manifest_assets_subset_integrity)
qed

text \<open>
  Two calls on one plugin instance, as for two output formats of one build: the
  manifest of the second call has integrity keys for the files of both calls. A file
  called \<^verbatim>\<open>__proto__\<close> in the second bundle gets no key.
\<close>

theorem integrity_keys_cover_manifest_assets_witness:
  "fst ` set (integrity (hook_manifest example_env2 example_config
       (hook_calls example_config initial_state
          [(example_env, [(''dataprism.min.js'', OutputChunk ''es'')])])
       [(''dataprism.umd.js'', OutputChunk ''umd'')]))
     = {''dataprism.min.js'', ''dataprism.umd.js''}
   \<and> fst ` set (integrity (hook_manifest example_env2 example_config
       (hook_calls example_config initial_state
          [(example_env, [(''dataprism.min.js'', OutputChunk ''es'')])])
       [(''dataprism.umd.js'', OutputChunk ''umd''), (''__proto__'', OutputChunk ''p'')]))
     = {''dataprism.min.js'', ''dataprism.umd.js''}"
proof -
  note t1 = integrity_keys_cover_manifest_assets [of example_env2 0 "[]" "[]" "[]" example_config
      "[(example_env, [(''dataprism.min.js'', OutputChunk ''es'')])]"
      "[(''dataprism.umd.js'', OutputChunk ''umd'')]"]
  note t2 = integrity_keys_cover_manifest_assets [of example_env2 0 "[]" "[]" "[]" example_config
      "[(example_env, [(''dataprism.min.js'', OutputChunk ''es'')])]"
      "[(''dataprism.umd.js'', OutputChunk ''umd''), (''__proto__'', OutputChunk ''p'')]"]
  note k1 = t1 [THEN conjunct2, THEN conjunct2, THEN conjunct1]
  note k2 = t2 [THEN conjunct2, THEN conjunct2, THEN conjunct1]
  have 1: "fst ` set (integrity (hook_manifest example_env2 example_config
       (hook_calls example_config initial_state
          [(example_env, [(''dataprism.min.js'', OutputChunk ''es'')])])
       [(''dataprism.umd.js'', OutputChunk ''umd'')]))
     = {''dataprism.min.js'', ''dataprism.umd.js''}"
    unfolding k1 by auto
  have 2: "fst ` set (integrity (hook_manifest example_env2 example_config
       (hook_calls example_config initial_state
          [(example_env, [(''dataprism.min.js'', OutputChunk ''es'')])])
       [(''dataprism.umd.js'', OutputChunk ''umd''), (''__proto__'', OutputChunk ''p'')]))
     = {''dataprism.min.js'', ''dataprism.umd.js''}"
    unfolding k2 by auto
  show ?thesis by (intro conjI) (fact 1 2)+
qed


subsection \<open>Classification of the core, orchestration and plugin-framework assets\<close>




subsection \<open>Reproducible digests\<close>

lemma map_map_set:
  "map (\<lambda>(f, a). (f, h a)) (map_set k v m) = map_set k (h v) (map (\<lambda>(f, a). (f, h a)) m)"
  by (induction m) auto

lemma hash_view_process_entry:
  assumes "sha384_hex env1 = sha384_hex env2" "hash_view st1 = hash_view st2"
  shows "hash_view (process_entry env1 cfg1 st1 e) = hash_view (process_entry env2 cfg2 st2 e)"
proof -
  obtain f item where e: "e = (f, item)" by (cases e)
  show ?thesis
  proof (cases item)
    case (OutputAsset src)
    then show ?thesis using assms unfolding e
      by (auto simp: hash_view_def Let_def map_map_set createPluginAssetInfo_def
          AssetInfo.defs PluginAssetInfo.defs)
  next
    case (OutputChunk code)
    then show ?thesis using assms unfolding e
      by (simp add: hash_view_def map_map_set)
  qed
qed

lemma hash_view_process_bundle:
  assumes "sha384_hex env1 = sha384_hex env2"
  shows "hash_view st1 = hash_view st2 \<Longrightarrow>
     hash_view (process_bundle env1 cfg1 st1 b) = hash_view (process_bundle env2 cfg2 st2 b)"
  unfolding process_bundle_def
proof (induction b arbitrary: st1 st2)
  case Nil
  then show ?case by simp
next
  case (Cons e b)
  have "hash_view (process_entry env1 cfg1 st1 e) = hash_view (process_entry env2 cfg2 st2 e)"
    using assms Cons.prems by (rule hash_view_process_entry)
  then show ?case unfolding foldl_Cons by (rule Cons.IH)
qed

lemma assetMap_hashes_process_entry:
  "map (\<lambda>(f, a). (f, asset_hash a)) (assetMap (process_entry env cfg st (f, item)))
     = map_set f (sha384_hex env (item_content item)) (map (\<lambda>(f, a). (f, asset_hash a)) (assetMap st))"
  by (cases item) (simp_all add: Let_def map_map_set item_content_def createPluginAssetInfo_def)

lemma assetMap_hashes_process_bundle:
  "distinct (map fst b) \<Longrightarrow> fst ` set b \<inter> fst ` set (assetMap st) = {} \<Longrightarrow>
   map (\<lambda>(f, a). (f, asset_hash a)) (assetMap (process_bundle env cfg st b))
     = map (\<lambda>(f, a). (f, asset_hash a)) (assetMap st)
       @ map (\<lambda>(f, item). (f, sha384_hex env (item_content item))) b"
  unfolding process_bundle_def
proof (induction b arbitrary: st)
  case Nil
  then show ?case by simp
next
  case (Cons e b)
  obtain f item where e: "e = (f, item)" by (cases e)
  let ?st = "process_entry env cfg st e"
  let ?hv = "\<lambda>m. map (\<lambda>(f, a). (f, asset_hash a)) m"
  have fresh: "f \<notin> fst ` set (?hv (assetMap st))"
    using Cons.prems(2) unfolding e by (auto simp: image_iff split_def)
  have step: "?hv (assetMap ?st) = ?hv (assetMap st) @ [(f, sha384_hex env (item_content item))]"
    unfolding e assetMap_hashes_process_entry using fresh by (rule map_set_fresh)
  have keys: "fst ` set (assetMap ?st) = insert f (fst ` set (assetMap st))"
    unfolding keys_process_entry e by simp
  have d: "distinct (map fst b)" using Cons.prems(1) by simp
  have disj: "fst ` set b \<inter> fst ` set (assetMap ?st) = {}"
    unfolding keys using Cons.prems unfolding e by auto
  show ?case unfolding foldl_Cons Cons.IH [OF d disj] step unfolding e by simp
qed

lemma buildHash_generateManifest:
  "buildHash (generateManifest env t amap ps ws cfg)
     = take 8 (sha256_hex env (concat (map snd (map (\<lambda>(f, a). (f, asset_hash a)) amap))))"
  by (simp add: generateManifest_def Let_def map_values_def split_def comp_def)

lemma buildHash_bundle_manifest:
  assumes "distinct (map fst b)"
  shows "buildHash (bundle_manifest env cfg b)
     = take 8 (sha256_hex env (concat (map (\<lambda>(f, item). sha384_hex env (item_content item)) b)))"
proof -
  have "map (\<lambda>(f, a). (f, asset_hash a)) (assetMap (process_bundle env cfg initial_state b))
     = map (\<lambda>(f, item). (f, sha384_hex env (item_content item))) b"
    using assetMap_hashes_process_bundle [OF assms, of initial_state env cfg]
    by (simp add: initial_state_def)
  then show ?thesis
    unfolding bundle_manifest_def Let_def buildHash_generateManifest
    by (simp add: split_def comp_def)
qed

text \<open>
  Claim C1: two runs of the manifest builder over the same set of files (same names, same
  bytes), each enumerated in sorted order of file name with no name repeated, record the
  same SHA-384 digest for every file and compute the same \<^verbatim>\<open>buildHash\<close>, whatever the
  clock, the package version, the Node version and the git state of the two runs. The
  \<^verbatim>\<open>buildHash\<close> is the first 8 characters of the SHA-256 digest of the per-file digests
  concatenated in sorted order of file name.
\<close>

theorem buildHash_deterministic:
  assumes "sha384_hex env1 = sha384_hex env2" and "sha256_hex env1 = sha256_hex env2"
    and "set b1 = set b2"
    and "sorted (map fst b1)" and "distinct (map fst b1)"
    and "sorted (map fst b2)" and "distinct (map fst b2)"
  shows "hash_view (process_bundle env1 cfg1 initial_state b1)
           = hash_view (process_bundle env2 cfg2 initial_state b2)
     \<and> buildHash (bundle_manifest env1 cfg1 b1) = buildHash (bundle_manifest env2 cfg2 b2)
     \<and> buildHash (bundle_manifest env1 cfg1 b1)
         = take 8 (sha256_hex env1 (concat (map snd (sort_key fst
             (map (\<lambda>(f, item). (f, sha384_hex env1 (item_content item))) b1)))))"
proof -
  have "inj_on fst (set b1)" using assms(5) by (simp add: distinct_map)
  then have "inj_on fst (set b1 \<union> set b2)" using assms(3) by simp
  then have eq: "b1 = b2"
    using assms(3-7) by (intro map_sorted_distinct_set_unique [of fst])
  have 1: "hash_view (process_bundle env1 cfg1 initial_state b1)
           = hash_view (process_bundle env2 cfg2 initial_state b2)"
    unfolding eq using assms(1) by (rule hash_view_process_bundle) simp
  have 2: "buildHash (bundle_manifest env1 cfg1 b1) = buildHash (bundle_manifest env2 cfg2 b2)"
    unfolding eq buildHash_bundle_manifest [OF assms(7)] using assms(1,2) by simp
  have "map fst (map (\<lambda>(f, item). (f, sha384_hex env1 (item_content item))) b1) = map fst b1"
    by (simp add: split_def comp_def)
  then have "sorted (map fst (map (\<lambda>(f, item). (f, sha384_hex env1 (item_content item))) b1))"
    using assms(4) by (simp only:)
  then have "sort_key fst (map (\<lambda>(f, item). (f, sha384_hex env1 (item_content item))) b1)
      = map (\<lambda>(f, item). (f, sha384_hex env1 (item_content item))) b1"
    by (rule sort_key_id_if_sorted)
  then have 3: "buildHash (bundle_manifest env1 cfg1 b1)
         = take 8 (sha256_hex env1 (concat (map snd (sort_key fst
             (map (\<lambda>(f, item). (f, sha384_hex env1 (item_content item))) b1)))))"
    unfolding buildHash_bundle_manifest [OF assms(5)] by (simp add: split_def comp_def)
  from 1 2 3 show ?thesis by blast
qed

theorem buildHash_deterministic_witness:
  "hash_view (process_bundle example_env example_config initial_state
       [(''app.wasm'', OutputAsset (SourceBytes ''asm'')), (''core.min.js'', OutputChunk ''helloworld'')])
     = hash_view (process_bundle example_env2 example_config initial_state
       [(''app.wasm'', OutputAsset (SourceBytes ''asm'')), (''core.min.js'', OutputChunk ''helloworld'')])
   \<and> buildHash (bundle_manifest example_env example_config
       [(''app.wasm'', OutputAsset (SourceBytes ''asm'')), (''core.min.js'', OutputChunk ''helloworld'')])
     = buildHash (bundle_manifest example_env2 example_config
       [(''app.wasm'', OutputAsset (SourceBytes ''asm'')), (''core.min.js'', OutputChunk ''helloworld'')])
   \<and> timestamp (bundle_manifest example_env example_config
       [(''app.wasm'', OutputAsset (SourceBytes ''asm'')), (''core.min.js'', OutputChunk ''helloworld'')])
     \<noteq> timestamp (bundle_manifest example_env2 example_config
       [(''app.wasm'', OutputAsset (SourceBytes ''asm'')), (''core.min.js'', OutputChunk ''helloworld'')])"
proof -
  let ?b = "[(''app.wasm'', OutputAsset (SourceBytes ''asm'')), (''core.min.js'', OutputChunk ''helloworld'')]"
  have h1: "sha384_hex example_env = sha384_hex example_env2"
    and h2: "sha256_hex example_env = sha256_hex example_env2"
    by (simp_all add: example_env_def example_env2_def)
  have s: "sorted (map fst ?b)" and d: "distinct (map fst ?b)" by simp_all
  have t: "timestamp (bundle_manifest example_env example_config ?b)
     \<noteq> timestamp (bundle_manifest example_env2 example_config ?b)"
    by (simp add: bundle_manifest_def generateManifest_def Let_def example_env_def example_env2_def)
  show ?thesis
    using buildHash_deterministic [OF h1 h2 refl s d s d, of example_config example_config] t
    by blast
qed


subsection \<open>Bundle-size validation\<close>

lemma set_file_issues:
  "set (file_issues fname asset) =
     {FileExceeds fname (asset_size asset) limit | pattern limit.
        (pattern, limit) \<in> set SIZE_LIMITS \<and> str_includes fname pattern \<and> asset_size asset > limit}"
  unfolding file_issues_def by (auto split: if_splits)

lemma set_bundle_size_issues:
  "set (bundle_size_issues amap) =
     {FileExceeds fname (asset_size asset) limit | fname asset pattern limit.
        (fname, asset) \<in> set amap \<and> (pattern, limit) \<in> set SIZE_LIMITS
        \<and> str_includes fname pattern \<and> asset_size asset > limit}
     \<union> (if sum_list (map asset_size (map_values amap)) > 5 * 1024 * 1024
        then {TotalExceeds (sum_list (map asset_size (map_values amap))) (5 * 1024 * 1024)} else {})"
proof -
  have "set (concat (map (\<lambda>(fname, asset). file_issues fname asset) amap)) =
     {FileExceeds fname (asset_size asset) limit | fname asset pattern limit.
        (fname, asset) \<in> set amap \<and> (pattern, limit) \<in> set SIZE_LIMITS
        \<and> str_includes fname pattern \<and> asset_size asset > limit}" (is "?L = ?R")
  proof
    show "?L \<subseteq> ?R" by (auto simp: set_file_issues)
    show "?R \<subseteq> ?L"
    proof
      fix x assume "x \<in> ?R"
      then obtain fname asset pattern limit where
        x: "x = FileExceeds fname (asset_size asset) limit" and
        m: "(fname, asset) \<in> set amap" and
        l: "(pattern, limit) \<in> set SIZE_LIMITS" "str_includes fname pattern" "asset_size asset > limit"
        by blast
      from l have "x \<in> set (file_issues fname asset)" unfolding x set_file_issues by blast
      with m show "x \<in> ?L" by force
    qed
  qed
  then show ?thesis
    unfolding bundle_size_issues_def Let_def SIZE_LIMITS_total_def by simp
qed

text \<open>
  Claim C9: the hook emits \<^verbatim>\<open>manifest.json\<close> (followed by the provider files) before the
  sizes are checked and whatever the check finds; the check only yields the warning, which
  is present exactly when there is an issue. There is an issue for every file and every
  entry of \<^verbatim>\<open>SIZE_LIMITS\<close> whose pattern occurs in the file name and whose limit the file
  exceeds, and one more when the sizes add up to more than 5MB. The table holds 2MB for
  \<^verbatim>\<open>core.min.js\<close>, 800KB for \<^verbatim>\<open>orchestration.min.js\<close>, 500KB for
  \<^verbatim>\<open>plugin-framework.min.js\<close> and for \<^verbatim>\<open>plugin\<close>, 1.5MB for \<^verbatim>\<open>wasm\<close> and 5MB for
  \<^verbatim>\<open>total\<close>. No step of the hook throws: \<open>generateBundle\<close> returns an outcome on every
  input.
\<close>

theorem bundle_size_validation_only_warns:
  "emitted (generateBundle env config st bundle)
     = (''manifest.json'',
        ManifestJson (generateManifest env (ticks (process_bundle env config st bundle))
          (assetMap (process_bundle env config st bundle))
          (pluginAssets (process_bundle env config st bundle))
          (wasmAssets (process_bundle env config st bundle)) config))
       # generateProviderConfigs
          (generateManifest env (ticks (process_bundle env config st bundle))
          (assetMap (process_bundle env config st bundle))
          (pluginAssets (process_bundle env config st bundle))
          (wasmAssets (process_bundle env config st bundle)) config) config
   \<and> warned (generateBundle env config st bundle)
     = (if bundle_size_issues (assetMap (process_bundle env config st bundle)) = [] then None
        else Some (bundle_size_issues (assetMap (process_bundle env config st bundle))))
   \<and> set (bundle_size_issues amap) =
     {FileExceeds fname (asset_size asset) limit | fname asset pattern limit.
        (fname, asset) \<in> set amap \<and> (pattern, limit) \<in> set SIZE_LIMITS
        \<and> str_includes fname pattern \<and> asset_size asset > limit}
     \<union> (if sum_list (map asset_size (map_values amap)) > 5 * 1024 * 1024
        then {TotalExceeds (sum_list (map asset_size (map_values amap))) (5 * 1024 * 1024)} else {})
   \<and> map_of SIZE_LIMITS ''core.min.js'' = Some (2 * 1024 * 1024)
   \<and> map_of SIZE_LIMITS ''orchestration.min.js'' = Some (800 * 1024)
   \<and> map_of SIZE_LIMITS ''plugin-framework.min.js'' = Some (500 * 1024)
   \<and> map_of SIZE_LIMITS ''plugin'' = Some (500 * 1024)
   \<and> map_of SIZE_LIMITS ''wasm'' = Some (1536 * 1024)
   \<and> map_of SIZE_LIMITS ''total'' = Some (5 * 1024 * 1024)"
proof -
  have t: "map_of SIZE_LIMITS ''core.min.js'' = Some (2 * 1024 * 1024)
   \<and> map_of SIZE_LIMITS ''orchestration.min.js'' = Some (800 * 1024)
   \<and> map_of SIZE_LIMITS ''plugin-framework.min.js'' = Some (500 * 1024)
   \<and> map_of SIZE_LIMITS ''plugin'' = Some (500 * 1024)
   \<and> map_of SIZE_LIMITS ''wasm'' = Some (1536 * 1024)
   \<and> map_of SIZE_LIMITS ''total'' = Some (5 * 1024 * 1024)"
    by (simp add: SIZE_LIMITS_def)
  show ?thesis
    using t
    by (simp add: generateBundle_def Let_def validateBundleSizes_def set_bundle_size_issues)
qed


text \<open>A \<^verbatim>\<open>core.min.js\<close> of 3MB: one warning, and the manifest is emitted.\<close>

lemma core_3MB_example:
  "warned (generateBundle example_env example_config initial_state
      [(''core.min.js'', OutputChunk (replicate (3 * 1024 * 1024) CHR ''x''))])
    = Some [FileExceeds ''core.min.js'' (3 * 1024 * 1024) (2 * 1024 * 1024)]
   \<and> fst (hd (emitted (generateBundle example_env example_config initial_state
      [(''core.min.js'', OutputChunk (replicate (3 * 1024 * 1024) CHR ''x''))]))) = ''manifest.json''"
  by (simp add: generateBundle_def Let_def validateBundleSizes_def bundle_size_issues_def
      file_issues_def SIZE_LIMITS_def SIZE_LIMITS_total_def process_bundle_def initial_state_def
      map_values_def str_includes_def sublist_code createAssetInfo_def)


section \<open>Properties of the retry loop\<close>

declare withRetry_loop.simps [simp del]

lemma readable_iff: "readable r \<longleftrightarrow> (\<exists>e. r = Inl (ThrownValue e))"
  by (cases r rule: readable.cases) simp_all

lemma withRetry_loop_success:
  "a \<le> k \<Longrightarrow> k \<le> n \<Longrightarrow> (\<forall>j. a \<le> j \<and> j < k \<longrightarrow> readable (operation j)) \<Longrightarrow> operation k = Inr v \<Longrightarrow>
   withRetry_loop operation n a le sl
     = \<lparr> outcome = Inr v, invocations = k, delays = sl @ map backoff_delay [a..<k] \<rparr>"
proof (induction "k - a" arbitrary: a le sl)
  case 0
  then have "a = k" by simp
  with 0 show ?case by (simp add: withRetry_loop.simps [of operation n k])
next
  case (Suc d)
  then have lt: "a < k" and an: "a < n" by simp_all
  from Suc.prems(3) lt obtain e where err: "operation a = Inl (ThrownValue e)"
    unfolding readable_iff by auto
  have ih: "withRetry_loop operation n (a + 1) (ThrownValue e) (sl @ [backoff_delay a])
     = \<lparr> outcome = Inr v, invocations = k,
         delays = (sl @ [backoff_delay a]) @ map backoff_delay [a + 1..<k] \<rparr>"
    using Suc by (intro Suc.hyps(1)) auto
  have "[a..<k] = a # [a + 1..<k]" using lt by (simp add: upt_conv_Cons)
  then show ?case
    using an err ih by (simp add: withRetry_loop.simps [of operation n a])
qed

lemma withRetry_loop_exhausted:
  "a \<le> n + 1 \<Longrightarrow> (\<forall>j. a \<le> j \<and> j \<le> n \<longrightarrow> readable (operation j)) \<Longrightarrow>
   withRetry_loop operation n a le sl
     = \<lparr> outcome = Inl (Rethrown (if a \<le> n then projl (operation n) else le)), invocations = n,
         delays = sl @ map backoff_delay [a..<n] \<rparr>"
proof (induction "n + 1 - a" arbitrary: a le sl)
  case 0
  then have "a = n + 1" by simp
  then show ?case by (subst withRetry_loop.simps) simp
next
  case (Suc d)
  then have an: "a \<le> n" by simp
  from Suc.prems(2) an obtain e where err: "operation a = Inl (ThrownValue e)"
    unfolding readable_iff by auto
  show ?case
  proof (cases "a < n")
    case True
    have ih: "withRetry_loop operation n (a + 1) (ThrownValue e) (sl @ [backoff_delay a])
       = \<lparr> outcome = Inl (Rethrown (if a + 1 \<le> n then projl (operation n) else ThrownValue e)),
           invocations = n,
           delays = (sl @ [backoff_delay a]) @ map backoff_delay [a + 1..<n] \<rparr>"
      using Suc by (intro Suc.hyps(1)) auto
    have "[a..<n] = a # [a + 1..<n]" using True by (simp add: upt_conv_Cons)
    then show ?thesis
      using True err ih by (simp add: withRetry_loop.simps [of operation n a])
  next
    case False
    with an have eq: "a = n" by simp
    have ih: "withRetry_loop operation n (a + 1) (ThrownValue e) sl
       = \<lparr> outcome = Inl (Rethrown (if a + 1 \<le> n then projl (operation n) else ThrownValue e)),
           invocations = n,
           delays = sl @ map backoff_delay [a + 1..<n] \<rparr>"
      using Suc by (intro Suc.hyps(1)) auto
    show ?thesis
      using eq err ih by (subst withRetry_loop.simps) simp
  qed
qed

lemma withRetry_loop_invocations:
  "a \<le> n + 1 \<Longrightarrow> invocations (withRetry_loop operation n a le sl) \<le> n"
proof (induction "n + 1 - a" arbitrary: a le sl)
  case 0
  then have "a = n + 1" by simp
  then show ?case by (subst withRetry_loop.simps) simp
next
  case (Suc d)
  then have an: "a \<le> n" by simp
  have ih: "invocations (withRetry_loop operation n (a + 1) le' sl') \<le> n" for le' sl'
    using Suc by (intro Suc.hyps(1)) auto
  show ?case
    using an ih
    by (subst withRetry_loop.simps) (auto split: sum.split thrown.split)
qed

text \<open>
  What the loop does as long as every failure is a value whose \<^verbatim>\<open>message\<close> can be read:
  with an attempt budget \<open>n \<ge> 1\<close> the operation is invoked at most \<open>n\<close> times (this holds
  for every operation); if its \<open>k\<close>-th invocation is the first to succeed, that result is
  returned after exactly \<open>k\<close> invocations; if all \<open>n\<close> invocations fail, the error of the
  last one is thrown after exactly \<open>n\<close> invocations; the delay slept after the failed
  attempt \<open>j\<close>, for every failed attempt but the \<open>n\<close>-th, is
  \<open>min (1000 * 2 ^ (j - 1)) 10000\<close> milliseconds.
\<close>

lemma withRetry_backoff_readable:
  assumes "1 \<le> n"
  shows "invocations (withRetry operation n) \<le> n
    \<and> (\<forall>k v. 1 \<le> k \<and> k \<le> n \<and> (\<forall>j. 1 \<le> j \<and> j < k \<longrightarrow> readable (operation j))
            \<and> operation k = Inr v
          \<longrightarrow> withRetry operation n
              = \<lparr> outcome = Inr v, invocations = k, delays = map backoff_delay [1..<k] \<rparr>)
    \<and> ((\<forall>j. 1 \<le> j \<and> j \<le> n \<longrightarrow> readable (operation j))
          \<longrightarrow> withRetry operation n
              = \<lparr> outcome = Inl (Rethrown (projl (operation n))), invocations = n,
                  delays = map backoff_delay [1..<n] \<rparr>)
    \<and> (\<forall>k. 1 \<le> k \<longrightarrow> backoff_delay k = min (1000 * 2 ^ (k - 1)) 10000)"
proof (intro conjI allI impI)
  fix k v
  assume h: "1 \<le> k \<and> k \<le> n \<and> (\<forall>j. 1 \<le> j \<and> j < k \<longrightarrow> readable (operation j))
      \<and> operation k = Inr v"
  then show "withRetry operation n
              = \<lparr> outcome = Inr v, invocations = k, delays = map backoff_delay [1..<k] \<rparr>"
    unfolding withRetry_def
    using withRetry_loop_success [of 1 k n operation v ThrownUndefined "[]"] by simp
next
  assume h: "\<forall>j. 1 \<le> j \<and> j \<le> n \<longrightarrow> readable (operation j)"
  then show "withRetry operation n
              = \<lparr> outcome = Inl (Rethrown (projl (operation n))), invocations = n,
                  delays = map backoff_delay [1..<n] \<rparr>"
    unfolding withRetry_def
    using withRetry_loop_exhausted [of 1 n operation ThrownUndefined "[]"] assms by simp
next
  fix k :: nat show "backoff_delay k = min (1000 * 2 ^ (k - 1)) 10000" by (simp add: backoff_delay_def)
next
  show "invocations (withRetry operation n) \<le> n"
    unfolding withRetry_def by (rule withRetry_loop_invocations) simp
qed

lemma flaky_example:
  "withRetry flaky 3 = \<lparr> outcome = Inr 42, invocations = 3, delays = [1000, 2000] \<rparr>"
proof -
  have "1 \<le> (3::nat) \<and> 3 \<le> (3::nat) \<and> (\<forall>j. 1 \<le> j \<and> j < 3 \<longrightarrow> readable (flaky j)) \<and> flaky 3 = Inr 42"
    by (simp add: flaky_def)
  then have "withRetry flaky 3
      = \<lparr> outcome = Inr 42, invocations = 3, delays = map backoff_delay [1..<3] \<rparr>"
    using withRetry_backoff_readable [of 3 flaky] by blast
  moreover have "map backoff_delay [1..<3] = [1000, 2000]"
    by (simp add: backoff_delay_def upt_rec)
  ultimately show ?thesis by simp
qed

text \<open>
  Claim C8 says that for every operation and budget \<open>n \<ge> 1\<close> the result of the first
  successful invocation is returned, and that after \<open>n\<close> failures the last error is
  thrown. With the budget 3, an operation that rejects with \<^verbatim>\<open>undefined\<close> the first time
  and would succeed the second time is invoked once, and \<^verbatim>\<open>withRetry\<close> rejects with the
  \<^verbatim>\<open>TypeError\<close> of reading \<^verbatim>\<open>error.message\<close>; an operation that always rejects with
  \<^verbatim>\<open>undefined\<close> is invoked once, not three times, and what is thrown is that
  \<^verbatim>\<open>TypeError\<close>, not the last error.
\<close>

theorem withRetry_aborts_on_nullish_rejection:
  "rejects_undefined_once 1 = Inl ThrownUndefined \<and> rejects_undefined_once 2 = Inr 42
   \<and> withRetry rejects_undefined_once 3
       = \<lparr> outcome = Inl MessageTypeError, invocations = 1, delays = [] \<rparr>
   \<and> withRetry rejects_undefined_always 3
       = \<lparr> outcome = Inl MessageTypeError, invocations = 1, delays = [] \<rparr>"
proof -
  have 1: "withRetry rejects_undefined_once 3
       = \<lparr> outcome = Inl MessageTypeError, invocations = 1, delays = [] \<rparr>"
    unfolding withRetry_def
    by (subst withRetry_loop.simps) (simp add: rejects_undefined_once_def)
  have 2: "withRetry rejects_undefined_always 3
       = \<lparr> outcome = Inl MessageTypeError, invocations = 1, delays = [] \<rparr>"
    unfolding withRetry_def
    by (subst withRetry_loop.simps) (simp add: rejects_undefined_always_def)
  show ?thesis using 1 2 by (simp add: rejects_undefined_once_def)
qed


section \<open>Properties of the deployment validator\<close>

text \<open>The unfolding that evaluates a validation run on a concrete network.\<close>

lemmas validator_eval =
  validateDeployment_def runConnectivityChecks_def checkUrlAccessible_def checkCORSHeaders_def
  checkCacheHeaders_def runAssetValidation_def fetchManifest_def validateAsset_def
  validateAssetIntegrity_def asset_check_name_def is_alnum_def runWasmValidation_def
  runDuckDBValidation_def duckdb_config_checks_def duckdb_asset_suffix_def split_pop_def
  runPluginValidation_def runSecurityValidation_def securityHeaders_def
  security_header_check_def checkSensitiveInfoExposure_def toLowerCase_def ascii_lower_def
  measurePerformance_def validatePerformanceMetrics_def determineOverallSuccess_def
  startsWith_def Let_def
  VALIDATION_CHECKS_ASSET_INTEGRITY_def VALIDATION_CHECKS_WASM_LOADING_def
  VALIDATION_CHECKS_PLUGIN_LOADING_def VALIDATION_CHECKS_CORS_HEADERS_def
  VALIDATION_CHECKS_CACHE_HEADERS_def VALIDATION_CHECKS_PERFORMANCE_def


lemmas example_networks = wasm_down_def all_up_def good_response_def not_found_def default_options_def

subsection \<open>The overall verdict\<close>

text \<open>
  Claim C5: the \<^verbatim>\<open>success\<close> flag of the result of \<^verbatim>\<open>validateDeployment\<close> is computed from
  the statuses of the result's checks and security checks. In strict mode it holds exactly
  when every check and every security check has status \<^verbatim>\<open>passed\<close>; otherwise it holds
  exactly when no check and no security check has status \<^verbatim>\<open>failed\<close>. The second
  conjunct states the same of \<^verbatim>\<open>determineOverallSuccess\<close> on any two lists.
\<close>

theorem overall_success_policy:
  "success (validateDeployment options env url) =
     (if strictMode options
      then (\<forall>c \<in> set (checks (validateDeployment options env url)). status c = Passed)
           \<and> (\<forall>s \<in> set (security (validateDeployment options env url)). sec_status s = Passed)
      else (\<forall>c \<in> set (checks (validateDeployment options env url)). status c \<noteq> Failed)
           \<and> (\<forall>s \<in> set (security (validateDeployment options env url)). sec_status s \<noteq> Failed))
   \<and> determineOverallSuccess options cs sec =
     (if strictMode options
      then (\<forall>c \<in> set cs. status c = Passed) \<and> (\<forall>s \<in> set sec. sec_status s = Passed)
      else (\<forall>c \<in> set cs. status c \<noteq> Failed) \<and> (\<forall>s \<in> set sec. sec_status s \<noteq> Failed))"
proof -
  have d: "determineOverallSuccess options cs sec =
     (if strictMode options
      then (\<forall>c \<in> set cs. status c = Passed) \<and> (\<forall>s \<in> set sec. sec_status s = Passed)
      else (\<forall>c \<in> set cs. status c \<noteq> Failed) \<and> (\<forall>s \<in> set sec. sec_status s \<noteq> Failed))"
    for cs sec
    by (simp add: determineOverallSuccess_def list_all_iff)
  have "success (validateDeployment options env url)
      = determineOverallSuccess options (checks (validateDeployment options env url))
          (security (validateDeployment options env url))"
    by (simp add: validateDeployment_def Let_def)
  then show ?thesis using d by simp
qed

lemma wasm_down_statuses:
  "map status (checks (validateDeployment default_options wasm_down ''https://cdn.example.org''))
     = [Passed, Passed, Passed, Passed, Passed, Passed, Passed, Passed, Passed, Warning, Passed,
        Passed, Passed, Passed, Passed, Passed, Passed, Passed, Passed, Passed, Passed, Passed]"
  "map sec_status (security (validateDeployment default_options wasm_down ''https://cdn.example.org''))
     = [Warning, Warning, Warning, Warning, Warning, Passed, Passed]"
  by (simp_all add: validator_eval example_networks)

lemma wasm_down_strict:
  "checks (validateDeployment (default_options \<lparr> strictMode := True \<rparr>) wasm_down url)
     = checks (validateDeployment default_options wasm_down url)"
  "strictMode (default_options \<lparr> strictMode := True \<rparr>)" "\<not> strictMode default_options"
  by (simp_all add: validateDeployment_def Let_def default_options_def)

theorem overall_success_policy_witness:
  "success (validateDeployment default_options wasm_down ''https://cdn.example.org'')
   \<and> \<not> success (validateDeployment (default_options \<lparr> strictMode := True \<rparr>) wasm_down
            ''https://cdn.example.org'')"
proof -
  let ?url = "''https://cdn.example.org''"
  let ?r = "validateDeployment default_options wasm_down ?url"
  have c: "\<forall>c \<in> set (checks ?r). status c \<noteq> Failed"
  proof -
    have n: "Failed \<notin> set (map status (checks ?r))" unfolding wasm_down_statuses by simp
    show ?thesis
    proof (intro ballI notI)
      fix c assume "c \<in> set (checks ?r)" "status c = Failed"
      then have "Failed \<in> status ` set (checks ?r)" by (intro image_eqI [of _ _ c]) simp_all
      with n show False by simp
    qed
  qed
  have s: "\<forall>s \<in> set (security ?r). sec_status s \<noteq> Failed"
  proof -
    have n: "Failed \<notin> set (map sec_status (security ?r))" unfolding wasm_down_statuses by simp
    show ?thesis
    proof (intro ballI notI)
      fix c assume "c \<in> set (security ?r)" "sec_status c = Failed"
      then have "Failed \<in> sec_status ` set (security ?r)" by (intro image_eqI [of _ _ c]) simp_all
      with n show False by simp
    qed
  qed
  have w: "\<not> (\<forall>c \<in> set (checks ?r). status c = Passed)"
  proof -
    have "Warning \<in> set (map status (checks ?r))" unfolding wasm_down_statuses by simp
    then obtain c where "c \<in> set (checks ?r)" "status c = Warning" by auto
    then show ?thesis by (intro notI) (drule bspec, assumption, simp)
  qed
  have 1: "success ?r"
    using overall_success_policy [of default_options wasm_down ?url] c s wasm_down_strict(3)
    by simp
  have 2: "\<not> success (validateDeployment (default_options \<lparr> strictMode := True \<rparr>) wasm_down ?url)"
    using overall_success_policy [of "default_options \<lparr> strictMode := True \<rparr>" wasm_down ?url] w
      wasm_down_strict(1) [of ?url] wasm_down_strict(2)
    by simp
  from 1 2 show ?thesis by simp
qed

subsection \<open>Failures of single requests\<close>



















section \<open>Properties of the deployment orchestrator\<close>

subsection \<open>The size of a bundle\<close>

lemma scan_totals:
  "scanDirectory env es rel acc = Inr acc' \<Longrightarrow> snd acc = sum_list (map file_size (fst acc))
     \<Longrightarrow> snd acc' = sum_list (map file_size (fst acc'))"
  "scanEntry env entryName node rel acc = Inr acc' \<Longrightarrow> snd acc = sum_list (map file_size (fst acc))
     \<Longrightarrow> snd acc' = sum_list (map file_size (fst acc'))"
proof (induction env es rel acc and env entryName node rel acc arbitrary: acc' and acc'
    rule: scanDirectory_scanEntry.induct)
  case (1 env relativePath acc)
  then show ?case by simp
next
  case (2 env entryName node rest relativePath acc)
  from "2.prems"(1) obtain mid where
    m: "scanEntry env entryName node relativePath acc = Inr mid"
    and r: "scanDirectory env rest relativePath mid = Inr acc'"
    by (auto split: sum.splits)
  have "snd mid = sum_list (map file_size (fst mid))"
    using m "2.prems"(2) by (rule "2.IH"(1))
  with m r show ?case by (rule "2.IH"(2))
next
  case (3 env entryName entries relativePath acc)
  from "3.prems" show ?case by (auto intro: "3.IH")
next
  case (4 env entryName c sz relativePath acc)
  then show ?case by auto
next
  case (5 env entryName relativePath acc)
  then show ?case by simp
next
  case (6 env entryName relativePath acc)
  then show ?case by simp
qed

lemma prepareAssetBundle_Dir:
  assumes "prepareAssetBundle env dir = Inr b"
  obtains entries where "fs env dir = Some (Dir entries)"
    and "scanDirectory env entries [] ([], 0) = Inr (files b, totalSize b)"
  using assms unfolding prepareAssetBundle_def Let_def
  by (auto split: if_splits option.splits fsnode.splits sum.splits prod.splits)

text \<open>
  Claim C7: whenever \<^verbatim>\<open>prepareAssetBundle\<close> returns a bundle (the directory exists and the
  scan and the reading of the manifest do not throw), \<^verbatim>\<open>totalSize\<close> is the sum of the
  \<^verbatim>\<open>size\<close> of the files of the bundle, for any number of files.
\<close>

theorem totalSize_is_sum_of_sizes:
  assumes "prepareAssetBundle env dir = Inr b"
  shows "totalSize b = sum_list (map file_size (files b))"
proof -
  from assms obtain entries where
    "scanDirectory env entries [] ([], 0) = Inr (files b, totalSize b)"
    by (rule prepareAssetBundle_Dir)
  then have "snd (files b, totalSize b) = sum_list (map file_size (fst (files b, totalSize b)))"
    by (rule scan_totals(1)) simp
  then show ?thesis by simp
qed


text \<open>The unfolding that evaluates the orchestrator in the concrete world.\<close>

lemmas orchestrator_eval =
  prepareAssetBundle_def existsSync_def example_world_def path_join_def normalize_separators_def
  generateDeploymentId_def loadConfiguration_def mergeConfiguration_def spread_config_def
  spread_field_def dry_run_options_def or_default_def json_or_default_def override_def
  deploy_def printAssetSummary_def asset_type_def split_pop_def toLowerCase_def ascii_lower_def
  inherited_names_def Let_def

lemma dist_bundle:
  "prepareAssetBundle example_world ''dist''
     = Inr \<lparr> files = [\<lparr> path = ''core.min.js'', content = ''helloworld'', file_size = 10,
                           file_hash = ''helloworld'' \<rparr>,
                         \<lparr> path = ''app.wasm'', content = ''0asm'', file_size = 4,
                           file_hash = ''0asm'' \<rparr>],
             manifest = JObj [],
             totalSize = 14,
             bundle_metadata = \<lparr> meta_deploymentId = ''deploy_1700000000000_abc123'',
                                 meta_timestamp = ''2023-11-14T22:13:20.000Z'',
                                 deploy_target = ''unknown'',
                                 meta_environment = ''production'' \<rparr> \<rparr>"
  by (simp add: orchestrator_eval)

lemma empty_bundle:
  "\<exists>b. prepareAssetBundle example_world ''empty'' = Inr b \<and> files b = []"
  by (simp add: orchestrator_eval)

theorem totalSize_is_sum_of_sizes_witness:
  "(\<exists>b. prepareAssetBundle example_world ''dist'' = Inr b \<and> length (files b) = 2
        \<and> totalSize b = 14 \<and> sum_list (map file_size (files b)) = 14)
   \<and> (\<exists>b. prepareAssetBundle example_world ''empty'' = Inr b \<and> files b = [] \<and> totalSize b = 0)"
proof (intro conjI)
  from dist_bundle obtain b where b: "prepareAssetBundle example_world ''dist'' = Inr b"
    "length (files b) = 2" "totalSize b = 14" by simp
  from totalSize_is_sum_of_sizes [OF b(1)] b
  show "\<exists>b. prepareAssetBundle example_world ''dist'' = Inr b \<and> length (files b) = 2
        \<and> totalSize b = 14 \<and> sum_list (map file_size (files b)) = 14" by simp
next
  from empty_bundle obtain b where b: "prepareAssetBundle example_world ''empty'' = Inr b"
    "files b = []" by blast
  from totalSize_is_sum_of_sizes [OF b(1)] b
  show "\<exists>b. prepareAssetBundle example_world ''empty'' = Inr b \<and> files b = [] \<and> totalSize b = 0"
    by simp
qed

subsection \<open>Dry runs\<close>

text \<open>
  A dry run calls no collaborator, and it returns the synthetic result whenever the
  configuration loads, the scan returns a bundle and the summary of the bundle can be
  printed. The summary can be printed when no file has a type that is an inherited
  property name.
\<close>

lemma dry_run_makes_no_calls:
  "dryRun options = Some True \<Longrightarrow> calls (deploy env options) = []"
  by (simp add: deploy_def split: sum.split)

lemma dry_run_result:
  assumes "dryRun options = Some True"
    and "loadConfiguration env options = Inr config"
    and "prepareAssetBundle env (or_default (assetsDir options) ''cdn/dist'') = Inr bundle"
    and "printAssetSummary bundle = Inr summary"
  shows "deploy env options =
     \<lparr> calls = [],
       settled = Inr \<lparr> deploy_success = True, deploymentId = ''dry-run'',
                       deployed_url = json_or_default (baseUrl config) ''https://example.com'',
                       logs = [''Dry run completed successfully''], deploy_error = None \<rparr> \<rparr>"
  using assms by (simp add: deploy_def)

lemma groupAssetsByType_ok:
  "\<forall>f \<in> set fs'. asset_type (path f) \<notin> set inherited_names \<Longrightarrow>
     \<exists>groups'. groupAssetsByType fs' groups = Inr groups'"
  by (induction fs' arbitrary: groups) (simp_all add: Let_def)

lemma groupAssetsByType_throws:
  "\<exists>f \<in> set fs'. asset_type (path f) \<in> set inherited_names \<Longrightarrow>
     groupAssetsByType fs' groups = Inl (TypeError ''groups[type].push is not a function'')"
  by (induction fs' arbitrary: groups) (auto simp add: Let_def)

lemma dry_run_dist:
  "settled (deploy example_world (dry_run_options ''dist''))
     = Inr \<lparr> deploy_success = True, deploymentId = ''dry-run'',
             deployed_url = JStr ''https://example.com'',
             logs = [''Dry run completed successfully''], deploy_error = None \<rparr>"
  by (simp add: orchestrator_eval)


text \<open>
  Claim C3 says that a dry run with a configuration that meets the preconditions of the
  target and an existing assets directory returns the success result with
  \<^verbatim>\<open>deploymentId = "dry-run"\<close>, with no call of the provider and without \<^verbatim>\<open>GITHUB_TOKEN\<close>.
  On the directory \<^verbatim>\<open>odd\<close>, which exists and holds the single file \<^verbatim>\<open>constructor\<close>, the
  configuration loads and the scan returns a bundle, no provider is called, and the call
  rejects with the \<^verbatim>\<open>TypeError\<close> thrown while the asset summary is printed.
\<close>

theorem dry_run_throws_on_inherited_name:
  "dryRun (dry_run_options ''odd'') = Some True
   \<and> (\<exists>config. loadConfiguration example_world (dry_run_options ''odd'') = Inr config)
   \<and> existsSync example_world ''odd''
   \<and> (\<exists>bundle. prepareAssetBundle example_world ''odd'' = Inr bundle)
   \<and> GITHUB_TOKEN example_world = None
   \<and> deploy example_world (dry_run_options ''odd'')
       = \<lparr> calls = [], settled = Inl (TypeError ''groups[type].push is not a function'') \<rparr>"
  by (simp add: orchestrator_eval)


subsection \<open>What a dry run does not skip\<close>

text \<open>
  The repository of the merged configuration comes from the option, else from the
  configuration file, and is \<^verbatim>\<open>undefined\<close> with neither. The file is spread as it was
  parsed: a repository that is \<^verbatim>\<open>null\<close> in the file is missing, and one that is a number
  other than 0 is taken for a repository.
\<close>

lemma loadConfiguration_without_file:
  assumes "\<not> (truthy (configFile options) \<and> existsSync env (the (configFile options)))"
    and "or_default (opt_target options) ''github-pages'' = ''github-pages''"
    and "\<not> truthy (opt_repository options)"
  shows "loadConfiguration env options
           = Inl (Error ''GitHub repository is required for GitHub Pages deployment'')"
proof -
  have o: "override (opt_repository options) None = None"
    using assms(3) by (cases "opt_repository options") (simp_all add: override_def)
  from assms(1) have "configFile options = None
      \<or> (\<exists>p. configFile options = Some p \<and> \<not> (p \<noteq> [] \<and> existsSync env p))"
    by (cases "configFile options") auto
  then show ?thesis
    using assms(2) o by (auto simp add: loadConfiguration_def mergeConfiguration_def Let_def)
qed

lemma loadConfiguration_with_file:
  assumes "configFile options = Some p" and "p \<noteq> []" and "existsSync env p"
    and "fs env p = Some (File txt sz)" and "JSON_parse env txt = Some fileConfig"
    and "spread_field fileConfig ''target''
           (Some (JStr (or_default (opt_target options) ''github-pages'')))
         = Some (JStr ''github-pages'')"
    and "\<not> opt_truthy (json_get fileConfig ''repository'')"
    and "\<not> truthy (opt_repository options)"
  shows "loadConfiguration env options
           = Inl (Error ''GitHub repository is required for GitHub Pages deployment'')"
proof -
  have r: "\<not> opt_truthy (spread_field fileConfig ''repository'' None)"
    using assms(7) by (cases "json_get fileConfig ''repository''") (simp_all add: spread_field_def)
  have o: "override (opt_repository options) x = x" for x
    using assms(8) by (cases "opt_repository options") (simp_all add: override_def)
  show ?thesis
    using assms(1-6) r
    by (simp add: loadConfiguration_def mergeConfiguration_def spread_config_def Let_def o)
qed

lemma number_repository_passes:
  "\<exists>config. loadConfiguration broken_world (dry_run_with_config ''number-repo.json'' ''dist'')
             = Inr config
     \<and> target config = Some (JStr ''github-pages'') \<and> repository config = Some (JNum 123)"
  by (simp add: orchestrator_eval broken_world_def dry_run_with_config_def)

lemma number_repository_dry_run:
  "settled (deploy broken_world (dry_run_with_config ''number-repo.json'' ''dist''))
     = Inr \<lparr> deploy_success = True, deploymentId = ''dry-run'',
             deployed_url = JStr ''https://example.com'',
             logs = [''Dry run completed successfully''], deploy_error = None \<rparr>"
  by (simp add: orchestrator_eval broken_world_def dry_run_with_config_def)

text \<open>
  Claim C10: a dry run does not skip the two steps before it. With \<^verbatim>\<open>dryRun = true\<close>:
  if loading the configuration throws, the call rejects with that error; if the
  configuration loads and preparing the asset bundle throws (the directory is missing,
  is not a directory, holds a link to nothing, or its manifest cannot be read or
  parsed), the call rejects with that error, which for a directory that does not exist
  is \<^verbatim>\<open>Assets directory not found\<close> with the name of the directory; if the merged
  configuration has the target \<^verbatim>\<open>github-pages\<close> and no repository (whether or not a
  configuration file was read), the call rejects with the error that the repository is
  required. In none of these cases is a collaborator called, and the call resolves only
  if the configuration loaded and the scan returned a bundle.
\<close>

theorem dry_run_keeps_preconditions:
  assumes "dryRun options = Some True"
  shows "(\<forall>err. loadConfiguration env options = Inl err \<longrightarrow>
            deploy env options = \<lparr> calls = [], settled = Inl err \<rparr>)
    \<and> (\<forall>config err. loadConfiguration env options = Inr config
            \<and> prepareAssetBundle env (or_default (assetsDir options) ''cdn/dist'') = Inl err \<longrightarrow>
            deploy env options = \<lparr> calls = [], settled = Inl err \<rparr>)
    \<and> (\<forall>config. loadConfiguration env options = Inr config
            \<and> \<not> existsSync env (or_default (assetsDir options) ''cdn/dist'') \<longrightarrow>
            deploy env options
              = \<lparr> calls = [],
                  settled = Inl (Error (''Assets directory not found: ''
                                        @ or_default (assetsDir options) ''cdn/dist'')) \<rparr>)
    \<and> (\<forall>config. mergeConfiguration env options = Inr config
            \<and> target config = Some (JStr ''github-pages'') \<and> \<not> opt_truthy (repository config) \<longrightarrow>
            deploy env options
              = \<lparr> calls = [],
                  settled = Inl (Error ''GitHub repository is required for GitHub Pages deployment'') \<rparr>)
    \<and> (\<forall>result. settled (deploy env options) = Inr result \<longrightarrow>
            (\<exists>config bundle. loadConfiguration env options = Inr config
               \<and> prepareAssetBundle env (or_default (assetsDir options) ''cdn/dist'') = Inr bundle))"
proof (intro conjI allI impI)
  fix err assume "loadConfiguration env options = Inl err"
  then show "deploy env options = \<lparr> calls = [], settled = Inl err \<rparr>"
    by (simp add: deploy_def)
next
  fix config err
  assume "loadConfiguration env options = Inr config
            \<and> prepareAssetBundle env (or_default (assetsDir options) ''cdn/dist'') = Inl err"
  then show "deploy env options = \<lparr> calls = [], settled = Inl err \<rparr>"
    by (simp add: deploy_def)
next
  fix config
  assume "loadConfiguration env options = Inr config
            \<and> \<not> existsSync env (or_default (assetsDir options) ''cdn/dist'')"
  then show "deploy env options
              = \<lparr> calls = [],
                  settled = Inl (Error (''Assets directory not found: ''
                                        @ or_default (assetsDir options) ''cdn/dist'')) \<rparr>"
    by (simp add: deploy_def prepareAssetBundle_def)
next
  fix config
  assume "mergeConfiguration env options = Inr config
      \<and> target config = Some (JStr ''github-pages'') \<and> \<not> opt_truthy (repository config)"
  then have "loadConfiguration env options
      = Inl (Error ''GitHub repository is required for GitHub Pages deployment'')"
    by (simp add: loadConfiguration_def)
  then show "deploy env options
              = \<lparr> calls = [],
                  settled = Inl (Error ''GitHub repository is required for GitHub Pages deployment'') \<rparr>"
    by (simp add: deploy_def)
next
  fix result assume r: "settled (deploy env options) = Inr result"
  show "\<exists>config bundle. loadConfiguration env options = Inr config
               \<and> prepareAssetBundle env (or_default (assetsDir options) ''cdn/dist'') = Inr bundle"
  proof (cases "loadConfiguration env options")
    case (Inl err)
    with r show ?thesis by (simp add: deploy_def)
  next
    case (Inr config)
    show ?thesis
    proof (cases "prepareAssetBundle env (or_default (assetsDir options) ''cdn/dist'')")
      case (Inl err)
      with r Inr show ?thesis by (simp add: deploy_def)
    next
      case b: (Inr b)
      from Inr b show ?thesis by simp
    qed
  qed
qed

theorem dry_run_keeps_preconditions_witness:
  "deploy broken_world (dry_run_options ''missing'')
     = \<lparr> calls = [], settled = Inl (Error ''Assets directory not found: missing'') \<rparr>
   \<and> deploy broken_world (dry_run_options ''notadir'')
     = \<lparr> calls = [], settled = Inl (SystemError ''ENOTDIR'') \<rparr>
   \<and> deploy broken_world (dry_run_options ''dangling'')
     = \<lparr> calls = [], settled = Inl (SystemError ''ENOENT'') \<rparr>
   \<and> deploy broken_world (dry_run_options ''badmanifest'')
     = \<lparr> calls = [], settled = Inl SyntaxError \<rparr>
   \<and> deploy broken_world (dry_run_options ''manifestdir'')
     = \<lparr> calls = [], settled = Inl (SystemError ''EISDIR'') \<rparr>
   \<and> deploy broken_world (dry_run_with_config ''broken.json'' ''dist'')
     = \<lparr> calls = [], settled = Inl SyntaxError \<rparr>
   \<and> deploy broken_world (dry_run_with_config ''no-repo.json'' ''dist'')
     = \<lparr> calls = [],
         settled = Inl (Error ''GitHub repository is required for GitHub Pages deployment'') \<rparr>
   \<and> deploy broken_world (dry_run_with_config ''null-repo.json'' ''dist'')
     = \<lparr> calls = [],
         settled = Inl (Error ''GitHub repository is required for GitHub Pages deployment'') \<rparr>
   \<and> deploy broken_world ((dry_run_options ''dist'') \<lparr> opt_repository := None \<rparr>)
     = \<lparr> calls = [],
         settled = Inl (Error ''GitHub repository is required for GitHub Pages deployment'') \<rparr>
   \<and> (\<exists>result. settled (deploy broken_world (dry_run_options ''dist'')) = Inr result)
   \<and> (\<exists>config bundle. loadConfiguration broken_world (dry_run_options ''dist'') = Inr config
         \<and> prepareAssetBundle broken_world ''dist'' = Inr bundle)"
proof -
  note world = orchestrator_eval broken_world_def dry_run_with_config_def
  have load_error: "deploy broken_world options = \<lparr> calls = [], settled = Inl err \<rparr>"
    if "dryRun options = Some True" "loadConfiguration broken_world options = Inl err"
    for options err
    using dry_run_keeps_preconditions [OF that(1), of broken_world] that(2) by blast
  have scan_error: "deploy broken_world options = \<lparr> calls = [], settled = Inl err \<rparr>"
    if "dryRun options = Some True" "loadConfiguration broken_world options = Inr config"
      "prepareAssetBundle broken_world (or_default (assetsDir options) ''cdn/dist'') = Inl err"
    for options config err
    using dry_run_keeps_preconditions [OF that(1), of broken_world] that(2,3) by blast
  have not_found: "deploy broken_world options
      = \<lparr> calls = [],
          settled = Inl (Error (''Assets directory not found: ''
                                @ or_default (assetsDir options) ''cdn/dist'')) \<rparr>"
    if "dryRun options = Some True" "loadConfiguration broken_world options = Inr config"
      "\<not> existsSync broken_world (or_default (assetsDir options) ''cdn/dist'')"
    for options config
    using dry_run_keeps_preconditions [OF that(1), of broken_world] that(2,3) by blast
  have no_repository: "deploy broken_world options
      = \<lparr> calls = [],
          settled = Inl (Error ''GitHub repository is required for GitHub Pages deployment'') \<rparr>"
    if "dryRun options = Some True" "mergeConfiguration broken_world options = Inr config"
      "target config = Some (JStr ''github-pages'')" "\<not> opt_truthy (repository config)"
    for options config
    using dry_run_keeps_preconditions [OF that(1), of broken_world] that(2,3,4) by blast
  have resolved: "\<exists>config bundle. loadConfiguration broken_world options = Inr config
      \<and> prepareAssetBundle broken_world (or_default (assetsDir options) ''cdn/dist'') = Inr bundle"
    if "dryRun options = Some True" "settled (deploy broken_world options) = Inr result"
    for options result
    using dry_run_keeps_preconditions [OF that(1), of broken_world] that(2) by blast
  have d: "dryRun (dry_run_options dir) = Some True"
    "dryRun (dry_run_with_config cfg dir) = Some True"
    "dryRun ((dry_run_options dir) \<lparr> opt_repository := None \<rparr>) = Some True" for cfg dir
    by (simp_all add: dry_run_options_def dry_run_with_config_def)
  have a: "or_default (assetsDir (dry_run_options dir)) ''cdn/dist''
             = (if dir = [] then ''cdn/dist'' else dir)" for dir
    by (simp add: dry_run_options_def or_default_def)
  have c: "\<exists>config. loadConfiguration broken_world (dry_run_options dir) = Inr config" for dir
    by (simp add: world)
  then obtain config where
    config: "\<And>dir. loadConfiguration broken_world (dry_run_options dir) = Inr (config dir)"
    by metis
  have 1: "deploy broken_world (dry_run_options ''missing'')
     = \<lparr> calls = [], settled = Inl (Error ''Assets directory not found: missing'') \<rparr>"
    using not_found [OF d(1) config, of "''missing''"] by (simp add: a existsSync_def broken_world_def)
  have 2: "deploy broken_world (dry_run_options ''notadir'')
     = \<lparr> calls = [], settled = Inl (SystemError ''ENOTDIR'') \<rparr>"
    by (rule scan_error [OF d(1) config]) (simp add: world)
  have 3: "deploy broken_world (dry_run_options ''dangling'')
     = \<lparr> calls = [], settled = Inl (SystemError ''ENOENT'') \<rparr>"
    by (rule scan_error [OF d(1) config]) (simp add: world)
  have 4: "deploy broken_world (dry_run_options ''badmanifest'')
     = \<lparr> calls = [], settled = Inl SyntaxError \<rparr>"
    by (rule scan_error [OF d(1) config]) (simp add: world)
  have 5: "deploy broken_world (dry_run_options ''manifestdir'')
     = \<lparr> calls = [], settled = Inl (SystemError ''EISDIR'') \<rparr>"
    by (rule scan_error [OF d(1) config]) (simp add: world)
  have 6: "deploy broken_world (dry_run_with_config ''broken.json'' ''dist'')
     = \<lparr> calls = [], settled = Inl SyntaxError \<rparr>"
    by (rule load_error [OF d(2)]) (simp add: world)
  have m7: "\<exists>config. mergeConfiguration broken_world (dry_run_with_config ''no-repo.json'' ''dist'')
               = Inr config
       \<and> target config = Some (JStr ''github-pages'') \<and> \<not> opt_truthy (repository config)"
    by (simp add: world)
  have 7: "deploy broken_world (dry_run_with_config ''no-repo.json'' ''dist'')
     = \<lparr> calls = [],
         settled = Inl (Error ''GitHub repository is required for GitHub Pages deployment'') \<rparr>"
    using m7 no_repository [OF d(2)] by blast
  have m8: "\<exists>config. mergeConfiguration broken_world (dry_run_with_config ''null-repo.json'' ''dist'')
               = Inr config
       \<and> target config = Some (JStr ''github-pages'') \<and> \<not> opt_truthy (repository config)"
    by (simp add: world)
  have 8: "deploy broken_world (dry_run_with_config ''null-repo.json'' ''dist'')
     = \<lparr> calls = [],
         settled = Inl (Error ''GitHub repository is required for GitHub Pages deployment'') \<rparr>"
    using m8 no_repository [OF d(2)] by blast
  have m9: "\<exists>config. mergeConfiguration broken_world
                 ((dry_run_options ''dist'') \<lparr> opt_repository := None \<rparr>) = Inr config
       \<and> target config = Some (JStr ''github-pages'') \<and> \<not> opt_truthy (repository config)"
    by (simp add: world)
  have 9: "deploy broken_world ((dry_run_options ''dist'') \<lparr> opt_repository := None \<rparr>)
     = \<lparr> calls = [],
         settled = Inl (Error ''GitHub repository is required for GitHub Pages deployment'') \<rparr>"
    using m9 no_repository [OF d(3)] by blast
  have 10: "\<exists>result. settled (deploy broken_world (dry_run_options ''dist'')) = Inr result"
    by (simp add: world)
  then obtain result where "settled (deploy broken_world (dry_run_options ''dist'')) = Inr result" ..
  from resolved [OF d(1) this]
  have 11: "\<exists>config bundle. loadConfiguration broken_world (dry_run_options ''dist'') = Inr config
         \<and> prepareAssetBundle broken_world ''dist'' = Inr bundle"
    by (simp add: a)
  show ?thesis by (intro conjI) (fact 1 2 3 4 5 6 7 8 9 10 11)+
qed

end
